theory Spec2Isabelle
  imports Complex_Main "HOL-Library.AList"
begin

section \<open>Data model (app/models/schemas.py, app/core/config.py)\<close>

text \<open>
  Python floats are modelled as reals: the claims below compare scores with
  each other and with thresholds, and bound a weighted sum; none depends on
  rounding.
\<close>

datatype recommendation_type =
  COURSE_URGENT | COURSE_POPULAR | TASK_CLAIM | GOAL_TALK
  | REPORT_TIME | PROFILE_COMPLETE | EXAM_PUBLISH | COURSE_PUBLISH

text \<open>The string value of each member of the enum \<open>RecommendationType\<close>.\<close>

fun type_value :: "recommendation_type \<Rightarrow> string" where
  "type_value COURSE_URGENT = ''COURSE_URGENT''"
| "type_value COURSE_POPULAR = ''COURSE_POPULAR''"
| "type_value TASK_CLAIM = ''TASK_CLAIM''"
| "type_value GOAL_TALK = ''GOAL_TALK''"
| "type_value REPORT_TIME = ''REPORT_TIME''"
| "type_value PROFILE_COMPLETE = ''PROFILE_COMPLETE''"
| "type_value EXAM_PUBLISH = ''EXAM_PUBLISH''"
| "type_value COURSE_PUBLISH = ''COURSE_PUBLISH''"

datatype urgency_level = CRITICAL | HIGH | MEDIUM | LOW

text \<open>
  A \<open>datetime\<close>: the wall-clock reading in microseconds and, when the value is
  timezone-aware, its offset from UTC in microseconds (\<open>tzinfo\<close>; \<open>None\<close> is a
  naive value). A \<open>timedelta\<close> is a number of microseconds.
\<close>

record datetime =
  wall :: int
  tzinfo :: "int option"

text \<open>
  \<open>RecommendationItem\<close>. The fields \<open>title\<close>, \<open>description\<close>, \<open>action_text\<close>,
  \<open>action_url\<close>, \<open>estimated_time\<close>, \<open>reasons\<close> and \<open>created_at\<close> are display text
  and a construction timestamp; the engine reads them only through the
  equality of two items. They are kept together, uninterpreted, in \<open>rest\<close>.
\<close>

record 'x recommendation_item =
  item_id :: string
  rtype :: recommendation_type
  score :: real
  urgency :: real
  importance :: real
  personal_fit :: real
  growth_value :: real
  deadline :: "datetime option"
  item_urgency_level :: "urgency_level option"
  source_id :: string
  source_type :: string
  rest :: 'x

text \<open>The fields of \<open>Settings\<close> that the engine and the cache read.\<close>

record settings =
  use_mock_data :: bool
  cache_prefix :: string
  algorithm_weights_urgency :: real
  algorithm_weights_importance :: real
  algorithm_weights_personal_fit :: real
  algorithm_weights_growth_value :: real
  urgency_critical :: int
  urgency_high :: int
  urgency_medium :: int
  urgency_low :: int

definition default_settings :: settings where
  "default_settings =
     \<lparr> use_mock_data = False,
       cache_prefix = ''what_to_do'',
       algorithm_weights_urgency = 35 / 100,
       algorithm_weights_importance = 30 / 100,
       algorithm_weights_personal_fit = 25 / 100,
       algorithm_weights_growth_value = 10 / 100,
       urgency_critical = 24,
       urgency_high = 72,
       urgency_medium = 168,
       urgency_low = 720 \<rparr>"

datatype error = ValidationError | TypeError | KeyError | ValueError | UpstreamError | ConnectionError

section \<open>Scorer (app/services/recommendation_engine.py)\<close>

definition calculate_urgency_score :: "int \<Rightarrow> string \<Rightarrow> real" where
  "calculate_urgency_score days_left task_type =
     (if task_type = ''COURSE'' then
        (if days_left \<le> 1 then 95
         else if days_left \<le> 3 then 85
         else if days_left \<le> 7 then 70
         else if days_left \<le> 14 then 50
         else 30)
      else if task_type = ''PROJECT'' then
        (if days_left \<le> 3 then 90
         else if days_left \<le> 7 then 75
         else if days_left \<le> 14 then 60
         else 40)
      else 25)"

definition calculate_total_score :: "settings \<Rightarrow> real \<Rightarrow> real \<Rightarrow> real \<Rightarrow> real \<Rightarrow> real" where
  "calculate_total_score st urgency_s importance_s fit growth =
     (let total = urgency_s * algorithm_weights_urgency st
                + importance_s * algorithm_weights_importance st
                + fit * algorithm_weights_personal_fit st
                + growth * algorithm_weights_growth_value st
      in min total 100)"

definition get_urgency_level :: "settings \<Rightarrow> int \<Rightarrow> urgency_level" where
  "get_urgency_level st hours_left =
     (if hours_left \<le> urgency_critical st then CRITICAL
      else if hours_left \<le> urgency_high st then HIGH
      else if hours_left \<le> urgency_medium st then MEDIUM
      else LOW)"

section \<open>Diversity selector\<close>

text \<open>\<open>rec.type.value.split('_')[0]\<close>: the text before the first underscore.\<close>

definition split_first :: "string \<Rightarrow> string" where
  "split_first s = takeWhile (\<lambda>c. c \<noteq> CHR ''_'') s"

definition rec_category :: "'x recommendation_item \<Rightarrow> string" where
  "rec_category r = split_first (type_value (rtype r))"

text \<open>
  \<open>sorted(recommendations, key=lambda x: x.score, reverse=True)\<close>: a stable sort,
  highest score first, ties in their original order.
\<close>

definition sorted_recs :: "'x recommendation_item list \<Rightarrow> 'x recommendation_item list" where
  "sorted_recs recommendations = sort_key (\<lambda>x. - score x) recommendations"

text \<open>The first loop: one item for each top-level category not used yet.\<close>

fun diversity_loop ::
  "'x recommendation_item list \<Rightarrow> 'x recommendation_item list \<Rightarrow> string set
   \<Rightarrow> 'x recommendation_item list" where
  "diversity_loop [] selected used_types = selected"
| "diversity_loop (r # rs) selected used_types =
     (if length selected \<ge> 3 then selected
      else if rec_category r \<notin> used_types
        then diversity_loop rs (selected @ [r]) (insert (rec_category r) used_types)
      else diversity_loop rs selected used_types)"

text \<open>The second loop: fill up with the best items not selected yet.\<close>

fun fill_loop ::
  "'x recommendation_item list \<Rightarrow> 'x recommendation_item list
   \<Rightarrow> 'x recommendation_item list" where
  "fill_loop [] selected = selected"
| "fill_loop (r # rs) selected =
     (if length selected \<ge> 3 then selected
      else if r \<notin> set selected then fill_loop rs (selected @ [r])
      else fill_loop rs selected)"

definition select_top3_with_diversity ::
  "'x recommendation_item list \<Rightarrow> 'x recommendation_item list" where
  "select_top3_with_diversity recommendations =
     (if recommendations = [] then []
      else let srt = sorted_recs recommendations;
               selected = diversity_loop srt [] {};
               selected2 = fill_loop srt selected
           in take 3 selected2)"

text \<open>The items chosen by the first loop alone, and the order the claims speak of.\<close>

definition diversity_picks :: "'x recommendation_item list \<Rightarrow> 'x recommendation_item list" where
  "diversity_picks recommendations = diversity_loop (sorted_recs recommendations) [] {}"

definition score_descending :: "'x recommendation_item list \<Rightarrow> bool" where
  "score_descending rs = sorted_wrt (\<lambda>a b. score b \<le> score a) rs"

text \<open>A candidate of a given type and score, every other field empty, for concrete pools.\<close>

definition sample_item :: "recommendation_type \<Rightarrow> real \<Rightarrow> unit recommendation_item" where
  "sample_item t s =
     \<lparr> item_id = [], rtype = t, score = s, urgency = 0, importance = 0,
       personal_fit = 0, growth_value = 0, deadline = None,
       item_urgency_level = None, source_id = [], source_type = [], rest = () \<rparr>"

section \<open>Time and text helpers\<close>

text \<open>
  \<open>datetime.now(timezone.utc)\<close> at a reading of \<open>t\<close> microseconds, and the
  normalisation written out in each generator:
  \<open>d.replace(tzinfo=timezone.utc) if d.tzinfo is None else d\<close>.
\<close>

definition utc_now :: "int \<Rightarrow> datetime" where
  "utc_now t = \<lparr> wall = t, tzinfo = Some 0 \<rparr>"

definition with_utc :: "datetime \<Rightarrow> datetime" where
  "with_utc d = (if tzinfo d = None then d\<lparr> tzinfo := Some 0 \<rparr> else d)"

text \<open>
  The instant of an aware datetime in microseconds of UTC, the difference
  \<open>a - b\<close> of two aware datetimes, and \<open>timedelta.days\<close>, which rounds towards
  minus infinity.
\<close>

definition utc_micros :: "datetime \<Rightarrow> int" where
  "utc_micros d = wall d - (case tzinfo d of None \<Rightarrow> 0 | Some off \<Rightarrow> off)"

definition dt_sub :: "datetime \<Rightarrow> datetime \<Rightarrow> int" where
  "dt_sub a b = utc_micros a - utc_micros b"

definition micros_per_day :: int where
  "micros_per_day = 86400000000"

definition days :: "int \<Rightarrow> int" where
  "days td = td div micros_per_day"

text \<open>\<open>str(n)\<close> for an integer.\<close>

definition digit_char :: "nat \<Rightarrow> char" where
  "digit_char d =
     (if d = 0 then CHR ''0'' else if d = 1 then CHR ''1'' else if d = 2 then CHR ''2''
      else if d = 3 then CHR ''3'' else if d = 4 then CHR ''4'' else if d = 5 then CHR ''5''
      else if d = 6 then CHR ''6'' else if d = 7 then CHR ''7'' else if d = 8 then CHR ''8''
      else CHR ''9'')"

function str_nat :: "nat \<Rightarrow> string" where
  "str_nat n = (if n < 10 then [digit_char n] else str_nat (n div 10) @ [digit_char (n mod 10)])"
  by pat_completeness auto
termination
  by (relation "measure (\<lambda>n. n)") auto

definition str_int :: "int \<Rightarrow> string" where
  "str_int i = (if i < 0 then CHR ''-'' # str_nat (nat (- i)) else str_nat (nat i))"

section \<open>Upstream records (app/models/schemas.py, app/services/zishu_api.py)\<close>

record course_selection =
  sele_id :: int
  sel_user_id :: int
  user_name :: string
  course_title :: string
  course_id :: int
  chapter_title :: string
  chapter_id :: int
  current_serial :: int
  sel_deadline :: datetime
  url :: string
  shushi_id :: "int option"
  shushi_name :: "string option"

record inno_project =
  proj_id :: int
  task_serial :: string
  proj_title :: string
  publisher :: string
  taker :: "string option"
  taker_id :: "int option"
  status :: "string option"
  proj_deadline :: datetime
  planed_hour :: real
  bonus :: "real option"
  task_text :: "string option"
  desc :: "string option"
  create_time :: datetime

text \<open>
  The catalogue, the goal and the reports arrive as JSON dicts. A key is absent,
  or present with JSON null (Python's \<open>None\<close>), or present with a value of the
  type the engine expects.
\<close>

datatype 'a json_field = Absent | Null | Value 'a

text \<open>\<open>str(d[key])\<close> for a key that is present: \<open>None\<close> prints as \<open>None\<close>.\<close>

definition str_json :: "int json_field \<Rightarrow> string" where
  "str_json f = (case f of Value n \<Rightarrow> str_int n | _ \<Rightarrow> ''None'')"

record course =
  c_id :: "int json_field"
  c_title :: "string json_field"
  finish_selections_num :: "int json_field"
  c_desc :: "string json_field"
  director_name :: "string json_field"

record goal =
  g_id :: "int json_field"
  g_user_id :: "int json_field"
  content :: "string json_field"
  start_time :: "string json_field"
  target_date :: "string json_field"

record report =
  report_time :: "string json_field"
  time_reported :: "real json_field"

record user_data =
  selections :: "course_selection list"
  all_courses :: "course list"
  projects :: "inno_project list"
  ud_goal :: "goal option"
  reports :: "report list"
  ud_user_id :: int
  token :: string

text \<open>
  The display fields of an item are f-strings over the record the item is made
  from, the loop position and the computed number of days or hours. They are
  rendered by these functions, which the model leaves open.
\<close>

record 'x templates =
  course_urgent_text :: "nat \<Rightarrow> course_selection \<Rightarrow> int \<Rightarrow> 'x"
  course_popular_text :: "nat \<Rightarrow> course \<Rightarrow> 'x"
  task_claim_text :: "nat \<Rightarrow> inno_project \<Rightarrow> 'x"
  goal_talk_text :: "goal \<Rightarrow> int \<Rightarrow> 'x"
  report_time_text :: "real \<Rightarrow> 'x"

text \<open>
  The constructor of \<open>RecommendationItem\<close>: pydantic checks \<open>ge=0, le=100\<close> on the
  five score fields and raises a validation error otherwise.
\<close>

definition in_score_range :: "real \<Rightarrow> bool" where
  "in_score_range v = (0 \<le> v \<and> v \<le> 100)"

definition RecommendationItem :: "'x recommendation_item \<Rightarrow> error + 'x recommendation_item" where
  "RecommendationItem r =
     (if in_score_range (score r) \<and> in_score_range (urgency r) \<and> in_score_range (importance r)
         \<and> in_score_range (personal_fit r) \<and> in_score_range (growth_value r)
      then Inr r else Inl ValidationError)"

section \<open>Candidate generators\<close>

subsection \<open>Courses\<close>

text \<open>The item built for a selection that is due, at loop position \<open>i\<close> and clock reading \<open>now\<close>.\<close>

definition course_urgent_item ::
  "settings \<Rightarrow> 'x templates \<Rightarrow> nat \<Rightarrow> int \<Rightarrow> course_selection \<Rightarrow> 'x recommendation_item" where
  "course_urgent_item st tp i now selection =
     (let dl = with_utc (sel_deadline selection);
          days_to_deadline = days (dt_sub dl (utc_now now));
          urgency_score = calculate_urgency_score days_to_deadline ''COURSE'';
          importance_score = 85;
          fit_score = 90;
          growth_score = 70;
          total_score = calculate_total_score st urgency_score importance_score fit_score growth_score;
          level = get_urgency_level st (days_to_deadline * 24)
      in \<lparr> item_id = ''course_urgent_'' @ str_int (sele_id selection),
           rtype = COURSE_URGENT,
           score = total_score,
           urgency = urgency_score,
           importance = importance_score,
           personal_fit = fit_score,
           growth_value = growth_score,
           deadline = Some dl,
           item_urgency_level = Some level,
           source_id = str_int (course_id selection),
           source_type = ''course_selection'',
           rest = course_urgent_text tp i selection days_to_deadline \<rparr>)"

text \<open>
  The first loop of \<open>_recommend_courses\<close>. The clock is read afresh in every
  iteration: \<open>clk i\<close> is the reading in iteration \<open>i\<close>.
\<close>

fun urgent_loop ::
  "settings \<Rightarrow> 'x templates \<Rightarrow> (nat \<Rightarrow> int) \<Rightarrow> nat \<Rightarrow> course_selection list
   \<Rightarrow> error + 'x recommendation_item list" where
  "urgent_loop st tp clk i [] = Inr []"
| "urgent_loop st tp clk i (selection # others) =
     (if days (dt_sub (with_utc (sel_deadline selection)) (utc_now (clk i))) \<le> 3 then
        (case RecommendationItem (course_urgent_item st tp i (clk i) selection) of
           Inl e \<Rightarrow> Inl e
         | Inr r \<Rightarrow>
            (case urgent_loop st tp clk (Suc i) others of
               Inl e \<Rightarrow> Inl e
             | Inr recs \<Rightarrow> Inr (r # recs)))
      else urgent_loop st tp clk (Suc i) others)"

text \<open>
  \<open>course.get("finish_selections_num", 0)\<close> where it is a number, and
  \<open>course["id"] not in selected_course_ids\<close>: \<open>None\<close> is in no set of course ids.
\<close>

definition finish_num :: "course \<Rightarrow> int" where
  "finish_num c = (case finish_selections_num c of Value n \<Rightarrow> n | _ \<Rightarrow> 0)"

definition id_selected :: "int json_field \<Rightarrow> int set \<Rightarrow> bool" where
  "id_selected f selected_course_ids =
     (case f of Value n \<Rightarrow> n \<in> selected_course_ids | _ \<Rightarrow> False)"

definition course_popular_score :: "settings \<Rightarrow> course \<Rightarrow> real" where
  "course_popular_score st c =
     calculate_total_score st 30 (60 + min (real_of_int (finish_num c * 2)) 30) 50 80"

definition course_popular_item ::
  "settings \<Rightarrow> 'x templates \<Rightarrow> nat \<Rightarrow> course \<Rightarrow> 'x recommendation_item" where
  "course_popular_item st tp i c =
     \<lparr> item_id = ''course_popular_'' @ str_json (c_id c),
       rtype = COURSE_POPULAR,
       score = course_popular_score st c,
       urgency = 30,
       importance = 60 + min (real_of_int (finish_num c * 2)) 30,
       personal_fit = 50,
       growth_value = 80,
       deadline = None,
       item_urgency_level = Some LOW,
       source_id = str_json (c_id c),
       source_type = ''course_popular'',
       rest = course_popular_text tp i c \<rparr>"

text \<open>
  The second loop. \<open>course["id"]\<close> and \<open>course['title']\<close> raise a key error on a
  dict without the key. \<open>course.get("finish_selections_num", 0) >= 5\<close> is
  evaluated only for a course that is not selected, and raises a type error on
  null; so does \<open>len(course.get("desc", ""))\<close>, which is evaluated after the title
  when the item is built.
\<close>

fun popular_loop ::
  "settings \<Rightarrow> 'x templates \<Rightarrow> int set \<Rightarrow> nat \<Rightarrow> course list
   \<Rightarrow> error + 'x recommendation_item list" where
  "popular_loop st tp selected_course_ids i [] = Inr []"
| "popular_loop st tp selected_course_ids i (c # others) =
     (if c_id c = Absent then Inl KeyError
      else if id_selected (c_id c) selected_course_ids
        then popular_loop st tp selected_course_ids (Suc i) others
      else if finish_selections_num c = Null then Inl TypeError
      else if finish_num c \<ge> 5 then
        (if course_popular_score st c \<ge> 60 then
           (if c_title c = Absent then Inl KeyError
            else if c_desc c = Null then Inl TypeError
            else
              (case RecommendationItem (course_popular_item st tp i c) of
                 Inl e \<Rightarrow> Inl e
               | Inr r \<Rightarrow>
                  (case popular_loop st tp selected_course_ids (Suc i) others of
                     Inl e \<Rightarrow> Inl e
                   | Inr recs \<Rightarrow> Inr (r # recs))))
         else popular_loop st tp selected_course_ids (Suc i) others)
      else popular_loop st tp selected_course_ids (Suc i) others)"

definition recommend_courses ::
  "settings \<Rightarrow> 'x templates \<Rightarrow> (nat \<Rightarrow> int) \<Rightarrow> user_data \<Rightarrow> error + 'x recommendation_item list" where
  "recommend_courses st tp clk ud =
     (case urgent_loop st tp clk 0 (selections ud) of
        Inl e \<Rightarrow> Inl e
      | Inr urgent \<Rightarrow>
         (case popular_loop st tp (course_id ` set (selections ud)) 0 (all_courses ud) of
            Inl e \<Rightarrow> Inl e
          | Inr popular \<Rightarrow> Inr (urgent @ popular)))"

subsection \<open>Projects\<close>

text \<open>\<open>project.bonus or 0\<close>.\<close>

definition bonus_or_0 :: "inno_project \<Rightarrow> real" where
  "bonus_or_0 p = (case bonus p of None \<Rightarrow> 0 | Some b \<Rightarrow> b)"

definition calculate_project_fit_score :: "inno_project \<Rightarrow> user_data \<Rightarrow> real" where
  "calculate_project_fit_score project ud =
     (let base_score = 50;
          b = bonus_or_0 project;
          base_score1 = (if b > 200 then base_score + 20
                         else if b > 100 then base_score + 10
                         else base_score);
          base_score2 = (if planed_hour project \<le> 10 then base_score1 + 15 else base_score1)
      in min base_score2 95)"

definition task_claim_score :: "settings \<Rightarrow> user_data \<Rightarrow> int \<Rightarrow> inno_project \<Rightarrow> real" where
  "task_claim_score st ud now project =
     (let days_to_deadline = days (dt_sub (with_utc (proj_deadline project)) (utc_now now));
          urgency_score = calculate_urgency_score days_to_deadline ''PROJECT'';
          importance_score = min (60 + bonus_or_0 project / 10) 90;
          fit_score = calculate_project_fit_score project ud;
          growth_score = min (60 + planed_hour project * 2) 90
      in calculate_total_score st urgency_score importance_score fit_score growth_score)"

definition task_claim_item ::
  "settings \<Rightarrow> 'x templates \<Rightarrow> user_data \<Rightarrow> nat \<Rightarrow> int \<Rightarrow> inno_project \<Rightarrow> 'x recommendation_item" where
  "task_claim_item st tp ud i now project =
     (let dl = with_utc (proj_deadline project);
          days_to_deadline = days (dt_sub dl (utc_now now))
      in \<lparr> item_id = ''task_claim_'' @ str_int (proj_id project),
           rtype = TASK_CLAIM,
           score = task_claim_score st ud now project,
           urgency = calculate_urgency_score days_to_deadline ''PROJECT'',
           importance = min (60 + bonus_or_0 project / 10) 90,
           personal_fit = calculate_project_fit_score project ud,
           growth_value = min (60 + planed_hour project * 2) 90,
           deadline = Some dl,
           item_urgency_level = Some (get_urgency_level st (days_to_deadline * 24)),
           source_id = str_int (proj_id project),
           source_type = ''project_task'',
           rest = task_claim_text tp i project \<rparr>)"

text \<open>
  The loop of \<open>_recommend_projects\<close>. \<open>len(project.desc)\<close> raises a type error
  when \<open>desc\<close> is \<open>None\<close>; it is evaluated only for a project that passes the
  threshold.
\<close>

fun project_loop ::
  "settings \<Rightarrow> 'x templates \<Rightarrow> user_data \<Rightarrow> (nat \<Rightarrow> int) \<Rightarrow> nat \<Rightarrow> inno_project list
   \<Rightarrow> error + 'x recommendation_item list" where
  "project_loop st tp ud clk i [] = Inr []"
| "project_loop st tp ud clk i (project # others) =
     (if taker_id project = None then
        (if task_claim_score st ud (clk i) project \<ge> 50 then
           (case desc project of
              None \<Rightarrow> Inl TypeError
            | Some d \<Rightarrow>
               (case RecommendationItem (task_claim_item st tp ud i (clk i) project) of
                  Inl e \<Rightarrow> Inl e
                | Inr r \<Rightarrow>
                   (case project_loop st tp ud clk (Suc i) others of
                      Inl e \<Rightarrow> Inl e
                    | Inr recs \<Rightarrow> Inr (r # recs))))
         else project_loop st tp ud clk (Suc i) others)
      else project_loop st tp ud clk (Suc i) others)"

definition recommend_projects ::
  "settings \<Rightarrow> 'x templates \<Rightarrow> (nat \<Rightarrow> int) \<Rightarrow> user_data \<Rightarrow> error + 'x recommendation_item list" where
  "recommend_projects st tp clk ud = project_loop st tp ud clk 0 (projects ud)"

subsection \<open>System actions\<close>

text \<open>
  \<open>if "+" not in s and "Z" not in s: s += "+00:00"\<close>. The parser
  \<open>datetime.fromisoformat\<close> belongs to the standard library; the model takes it
  as a parameter that returns a datetime or raises.
\<close>

definition add_offset :: "string \<Rightarrow> string" where
  "add_offset s = (if CHR ''+'' \<notin> set s \<and> CHR ''Z'' \<notin> set s then s @ ''+00:00'' else s)"

definition goal_talk_item ::
  "settings \<Rightarrow> 'x templates \<Rightarrow> goal \<Rightarrow> int \<Rightarrow> 'x recommendation_item" where
  "goal_talk_item st tp g days_since_start =
     (let urgency_score = min (50 + real_of_int days_since_start) 90;
          importance_score = 75;
          fit_score = 100;
          growth_score = 85
      in \<lparr> item_id = ''goal_talk_'' @ str_json (g_id g),
           rtype = GOAL_TALK,
           score = calculate_total_score st urgency_score importance_score fit_score growth_score,
           urgency = urgency_score,
           importance = importance_score,
           personal_fit = fit_score,
           growth_value = growth_score,
           deadline = None,
           item_urgency_level = Some MEDIUM,
           source_id = str_json (g_id g),
           source_type = ''goal_management'',
           rest = goal_talk_text tp g days_since_start \<rparr>)"

text \<open>
  \<open>if goal:\<close> is false for \<open>None\<close> and for the empty dict, the record with every
  key absent.
\<close>

definition goal_truthy :: "goal option \<Rightarrow> bool" where
  "goal_truthy go =
     (case go of
        None \<Rightarrow> False
      | Some g \<Rightarrow>
         \<not> (g_id g = Absent \<and> g_user_id g = Absent \<and> content g = Absent
            \<and> start_time g = Absent \<and> target_date g = Absent))"

text \<open>
  \<open>goal["start_time"]\<close>, \<open>goal['id']\<close> and \<open>goal['content']\<close> raise a key error on a
  missing key; \<open>"+" not in None\<close> and \<open>None[:50]\<close> raise a type error.
\<close>

definition goal_talk ::
  "settings \<Rightarrow> 'x templates \<Rightarrow> (string \<Rightarrow> error + datetime) \<Rightarrow> int \<Rightarrow> goal option
   \<Rightarrow> error + 'x recommendation_item list" where
  "goal_talk st tp fromisoformat now go =
     (case go of
        None \<Rightarrow> Inr []
      | Some g \<Rightarrow>
         (if \<not> goal_truthy go then Inr []
          else case start_time g of
             Absent \<Rightarrow> Inl KeyError
           | Null \<Rightarrow> Inl TypeError
           | Value start_time_str \<Rightarrow>
              (case fromisoformat (add_offset start_time_str) of
                 Inl e \<Rightarrow> Inl e
               | Inr parsed \<Rightarrow>
                  (let days_since_start = days (dt_sub (utc_now now) (with_utc parsed))
                   in if days_since_start > 21 then
                        (if g_id g = Absent then Inl KeyError
                         else case content g of
                            Absent \<Rightarrow> Inl KeyError
                          | Null \<Rightarrow> Inl TypeError
                          | Value c \<Rightarrow>
                             (case RecommendationItem (goal_talk_item st tp g days_since_start) of
                                Inl e \<Rightarrow> Inl e
                              | Inr r \<Rightarrow> Inr [r]))
                      else Inr []))))"

text \<open>
  The reports of the last 30 days: \<open>r["report_time"]\<close> raises a key error on a
  missing key, and \<open>"+" not in None\<close> a type error.
\<close>

fun recent_reports ::
  "(string \<Rightarrow> error + datetime) \<Rightarrow> int \<Rightarrow> report list \<Rightarrow> error + report list" where
  "recent_reports fromisoformat thirty_days_ago [] = Inr []"
| "recent_reports fromisoformat thirty_days_ago (r # others) =
     (case report_time r of
        Absent \<Rightarrow> Inl KeyError
      | Null \<Rightarrow> Inl TypeError
      | Value report_time_str \<Rightarrow>
         (case fromisoformat (add_offset report_time_str) of
            Inl e \<Rightarrow> Inl e
          | Inr parsed \<Rightarrow>
             (case recent_reports fromisoformat thirty_days_ago others of
                Inl e \<Rightarrow> Inl e
              | Inr rs \<Rightarrow>
                 Inr (if utc_micros (with_utc parsed) > thirty_days_ago then r # rs else rs))))"

text \<open>
  \<open>sum(r.get("time_reported", 0) for r in recent_reports)\<close>: adding \<open>None\<close> raises a
  type error.
\<close>

fun sum_hours :: "real \<Rightarrow> report list \<Rightarrow> error + real" where
  "sum_hours acc [] = Inr acc"
| "sum_hours acc (r # others) =
     (case time_reported r of
        Absent \<Rightarrow> sum_hours (acc + 0) others
      | Null \<Rightarrow> Inl TypeError
      | Value h \<Rightarrow> sum_hours (acc + h) others)"

definition report_time_item :: "settings \<Rightarrow> 'x templates \<Rightarrow> real \<Rightarrow> 'x recommendation_item" where
  "report_time_item st tp recent_hours =
     \<lparr> item_id = ''report_time_reminder'',
       rtype = REPORT_TIME,
       score = calculate_total_score st 60 70 90 50,
       urgency = 60,
       importance = 70,
       personal_fit = 90,
       growth_value = 50,
       deadline = None,
       item_urgency_level = Some MEDIUM,
       source_id = ''time_report'',
       source_type = ''system_reminder'',
       rest = report_time_text tp recent_hours \<rparr>"

definition report_reminder ::
  "settings \<Rightarrow> 'x templates \<Rightarrow> (string \<Rightarrow> error + datetime) \<Rightarrow> int \<Rightarrow> report list
   \<Rightarrow> error + 'x recommendation_item list" where
  "report_reminder st tp fromisoformat now rps =
     (if rps = [] then Inr []
      else case recent_reports fromisoformat (now - 30 * micros_per_day) rps of
         Inl e \<Rightarrow> Inl e
       | Inr recent \<Rightarrow>
          (case sum_hours 0 recent of
             Inl e \<Rightarrow> Inl e
           | Inr recent_hours \<Rightarrow>
              (if recent_hours < 10 then
                 (case RecommendationItem (report_time_item st tp recent_hours) of
                    Inl e \<Rightarrow> Inl e
                  | Inr r \<Rightarrow> Inr [r])
               else Inr [])))"

definition recommend_system_actions ::
  "settings \<Rightarrow> 'x templates \<Rightarrow> (string \<Rightarrow> error + datetime) \<Rightarrow> int \<Rightarrow> int \<Rightarrow> user_data
   \<Rightarrow> error + 'x recommendation_item list" where
  "recommend_system_actions st tp fromisoformat goal_now reports_now ud =
     (case goal_talk st tp fromisoformat goal_now (ud_goal ud) of
        Inl e \<Rightarrow> Inl e
      | Inr goal_recs \<Rightarrow>
         (case report_reminder st tp fromisoformat reports_now (reports ud) of
            Inl e \<Rightarrow> Inl e
          | Inr report_recs \<Rightarrow> Inr (goal_recs @ report_recs)))"

section \<open>Recommendation engine\<close>

text \<open>
  The outcome of the five upstream calls that \<open>asyncio.gather\<close> collects with
  \<open>return_exceptions=True\<close>: each is a value or the exception it raised.
\<close>

record api_results =
  r_selections :: "error + course_selection list"
  r_courses :: "error + course list"
  r_projects :: "error + inno_project list"
  r_goal :: "error + goal option"
  r_reports :: "error + report list"

text \<open>
  \<open>_fetch_user_data\<close>. The fixture returned by \<open>_get_mock_user_data\<close> is an
  input of the model (\<open>mock\<close>). With \<open>return_exceptions=True\<close> the gather itself
  raises nothing, so the handler around it is not entered.
\<close>

definition fetch_user_data :: "settings \<Rightarrow> user_data \<Rightarrow> api_results \<Rightarrow> int \<Rightarrow> string \<Rightarrow> user_data" where
  "fetch_user_data st mock results uid tok =
     (if use_mock_data st then mock
      else \<lparr> selections = (case r_selections results of Inl e \<Rightarrow> [] | Inr v \<Rightarrow> v),
             all_courses = (case r_courses results of Inl e \<Rightarrow> [] | Inr v \<Rightarrow> v),
             projects = (case r_projects results of Inl e \<Rightarrow> [] | Inr v \<Rightarrow> v),
             ud_goal = (case r_goal results of Inl e \<Rightarrow> None | Inr v \<Rightarrow> v),
             reports = (case r_reports results of Inl e \<Rightarrow> [] | Inr v \<Rightarrow> v),
             ud_user_id = uid,
             token = tok \<rparr>)"

text \<open>The wall-clock readings of one call, and the other inputs from outside.\<close>

record clocks =
  courses_clock :: "nat \<Rightarrow> int"
  projects_clock :: "nat \<Rightarrow> int"
  goal_now :: int
  reports_now :: int

text \<open>The body of the \<open>try\<close> block of \<open>generate_recommendations\<close>.\<close>

definition generate_body ::
  "settings \<Rightarrow> 'x templates \<Rightarrow> (string \<Rightarrow> error + datetime) \<Rightarrow> clocks \<Rightarrow> user_data
   \<Rightarrow> api_results \<Rightarrow> int \<Rightarrow> string \<Rightarrow> error + 'x recommendation_item list" where
  "generate_body st tp fromisoformat ck mock results uid tok =
     (let ud = fetch_user_data st mock results uid tok
      in case recommend_courses st tp (courses_clock ck) ud of
           Inl e \<Rightarrow> Inl e
         | Inr course_recs \<Rightarrow>
            (case recommend_projects st tp (projects_clock ck) ud of
               Inl e \<Rightarrow> Inl e
             | Inr project_recs \<Rightarrow>
                (case recommend_system_actions st tp fromisoformat (goal_now ck) (reports_now ck) ud of
                   Inl e \<Rightarrow> Inl e
                 | Inr system_recs \<Rightarrow>
                    Inr (select_top3_with_diversity (course_recs @ project_recs @ system_recs)))))"

text \<open>
  \<open>generate_recommendations\<close>: \<open>except Exception\<close> turns every failure of the
  body into the empty list. The result is a value or an exception raised to
  the caller.
\<close>

definition generate_recommendations ::
  "settings \<Rightarrow> 'x templates \<Rightarrow> (string \<Rightarrow> error + datetime) \<Rightarrow> clocks \<Rightarrow> user_data
   \<Rightarrow> api_results \<Rightarrow> int \<Rightarrow> string \<Rightarrow> error + 'x recommendation_item list" where
  "generate_recommendations st tp fromisoformat ck mock results uid tok =
     (case generate_body st tp fromisoformat ck mock results uid tok of
        Inl e \<Rightarrow> Inr []
      | Inr top3 \<Rightarrow> Inr top3)"

section \<open>Cache service (app/services/cache_service.py)\<close>

text \<open>The log lines that the cache service and the sweep write, by call site.\<close>

datatype log_entry =
  Log_redis_connected | Log_redis_connect_failed | Log_memory_fallback
  | Log_get_failed | Log_set_ok | Log_set_failed
  | Log_delete nat | Log_delete_failed | Log_exists_failed
  | Log_cleared nat | Log_clear_failed
  | Log_cleanup_start | Log_cleanup_done nat

text \<open>
  The Redis client and \<open>json\<close> are libraries outside the repository. The model
  takes them as parameters: \<open>'r\<close> is the state of a connected client with its
  server, every command returns its result or raises, and \<open>connect\<close> is the
  outcome of \<open>await redis.from_url(...)\<close>.
\<close>

record ('r, 'v) libs =
  connect :: "error + 'r"
  r_get :: "'r \<Rightarrow> string \<Rightarrow> (error + string option) \<times> 'r"
  r_set :: "'r \<Rightarrow> string \<Rightarrow> string \<Rightarrow> (error + unit) \<times> 'r"
  r_setex :: "'r \<Rightarrow> string \<Rightarrow> int \<Rightarrow> string \<Rightarrow> (error + unit) \<times> 'r"
  r_delete :: "'r \<Rightarrow> string list \<Rightarrow> (error + nat) \<times> 'r"
  r_exists :: "'r \<Rightarrow> string \<Rightarrow> (error + nat) \<times> 'r"
  r_keys :: "'r \<Rightarrow> string \<Rightarrow> (error + string list) \<times> 'r"
  dumps :: "'v \<Rightarrow> error + string"
  loads :: "string \<Rightarrow> error + 'v"

text \<open>
  \<open>self.redis\<close> holds a Redis client or an \<open>InMemoryCache\<close>, whose dict keeps its
  keys in insertion order. The URL that \<open>__init__\<close> builds from the Redis settings
  goes to \<open>from_url\<close> only and is left out.
\<close>

datatype 'r backend = Redis_client 'r | InMemoryCache "(string \<times> string) list"

record 'r cache_service =
  redis :: "'r backend option"
  prefix :: string
  logged :: "log_entry list"

definition CacheService :: "settings \<Rightarrow> 'r cache_service" where
  "CacheService st = \<lparr> redis = None, prefix = cache_prefix st, logged = [] \<rparr>"

definition add_log :: "log_entry list \<Rightarrow> 'r cache_service \<Rightarrow> 'r cache_service" where
  "add_log es cs = cs \<lparr> logged := logged cs @ es \<rparr>"

text \<open>
  \<open>_get_redis\<close>: connects on the first call only. When the connection fails, the
  error is logged, and \<open>InMemoryCache()\<close> logs its warning and takes the place
  of the client.
\<close>

definition get_redis :: "('r, 'v) libs \<Rightarrow> 'r cache_service \<Rightarrow> 'r backend \<times> 'r cache_service" where
  "get_redis lib cs =
     (case redis cs of
        Some b \<Rightarrow> (b, cs)
      | None \<Rightarrow>
         (case connect lib of
            Inr r \<Rightarrow>
              (Redis_client r, add_log [Log_redis_connected] (cs \<lparr> redis := Some (Redis_client r) \<rparr>))
          | Inl e \<Rightarrow>
              (InMemoryCache [],
               add_log [Log_redis_connect_failed, Log_memory_fallback]
                 (cs \<lparr> redis := Some (InMemoryCache []) \<rparr>))))"

definition make_key :: "'r cache_service \<Rightarrow> string \<Rightarrow> string" where
  "make_key cs key = prefix cs @ '':'' @ key"

text \<open>
  The commands of the backend. \<open>InMemoryCache.setex\<close> ignores the ttl;
  \<open>InMemoryCache.delete\<close> takes one key, so \<open>delete(*keys)\<close> raises a type error
  unless there is exactly one; \<open>InMemoryCache.keys\<close> ignores the pattern.
\<close>

definition backend_get :: "('r, 'v) libs \<Rightarrow> 'r backend \<Rightarrow> string \<Rightarrow> (error + string option) \<times> 'r backend" where
  "backend_get lib b key =
     (case b of
        Redis_client r \<Rightarrow> (case r_get lib r key of (res, r2) \<Rightarrow> (res, Redis_client r2))
      | InMemoryCache c \<Rightarrow> (Inr (map_of c key), InMemoryCache c))"

definition backend_set :: "('r, 'v) libs \<Rightarrow> 'r backend \<Rightarrow> string \<Rightarrow> string \<Rightarrow> (error + unit) \<times> 'r backend" where
  "backend_set lib b key val =
     (case b of
        Redis_client r \<Rightarrow> (case r_set lib r key val of (res, r2) \<Rightarrow> (res, Redis_client r2))
      | InMemoryCache c \<Rightarrow> (Inr (), InMemoryCache (AList.update key val c)))"

definition backend_setex ::
  "('r, 'v) libs \<Rightarrow> 'r backend \<Rightarrow> string \<Rightarrow> int \<Rightarrow> string \<Rightarrow> (error + unit) \<times> 'r backend" where
  "backend_setex lib b key ttl val =
     (case b of
        Redis_client r \<Rightarrow> (case r_setex lib r key ttl val of (res, r2) \<Rightarrow> (res, Redis_client r2))
      | InMemoryCache c \<Rightarrow> (Inr (), InMemoryCache (AList.update key val c)))"

definition backend_delete :: "('r, 'v) libs \<Rightarrow> 'r backend \<Rightarrow> string list \<Rightarrow> (error + nat) \<times> 'r backend" where
  "backend_delete lib b keys =
     (case b of
        Redis_client r \<Rightarrow> (case r_delete lib r keys of (res, r2) \<Rightarrow> (res, Redis_client r2))
      | InMemoryCache c \<Rightarrow>
         (case keys of
            [key] \<Rightarrow>
              (if key \<in> fst ` set c then (Inr 1, InMemoryCache (AList.delete key c))
               else (Inr 0, InMemoryCache c))
          | _ \<Rightarrow> (Inl TypeError, InMemoryCache c)))"

definition backend_exists :: "('r, 'v) libs \<Rightarrow> 'r backend \<Rightarrow> string \<Rightarrow> (error + nat) \<times> 'r backend" where
  "backend_exists lib b key =
     (case b of
        Redis_client r \<Rightarrow> (case r_exists lib r key of (res, r2) \<Rightarrow> (res, Redis_client r2))
      | InMemoryCache c \<Rightarrow> (Inr (if key \<in> fst ` set c then 1 else 0), InMemoryCache c))"

definition backend_keys :: "('r, 'v) libs \<Rightarrow> 'r backend \<Rightarrow> string \<Rightarrow> (error + string list) \<times> 'r backend" where
  "backend_keys lib b pattern =
     (case b of
        Redis_client r \<Rightarrow> (case r_keys lib r pattern of (res, r2) \<Rightarrow> (res, Redis_client r2))
      | InMemoryCache c \<Rightarrow> (Inr (map fst c), InMemoryCache c))"

text \<open>
  The methods of \<open>CacheService\<close>. Each returns its result and the service after
  the call; every exception inside is caught, logged and turned into the
  method's failure value.
\<close>

definition cache_get :: "('r, 'v) libs \<Rightarrow> 'r cache_service \<Rightarrow> string \<Rightarrow> 'v option \<times> 'r cache_service" where
  "cache_get lib cs key =
     (case get_redis lib cs of
        (b, cs1) \<Rightarrow>
          (case backend_get lib b (make_key cs1 key) of
             (Inl e, b2) \<Rightarrow> (None, add_log [Log_get_failed] (cs1 \<lparr> redis := Some b2 \<rparr>))
           | (Inr data, b2) \<Rightarrow>
               (case data of
                  None \<Rightarrow> (None, cs1 \<lparr> redis := Some b2 \<rparr>)
                | Some d \<Rightarrow>
                    (if d = [] then (None, cs1 \<lparr> redis := Some b2 \<rparr>)
                     else case loads lib d of
                        Inl e \<Rightarrow> (None, add_log [Log_get_failed] (cs1 \<lparr> redis := Some b2 \<rparr>))
                      | Inr v \<Rightarrow> (Some v, cs1 \<lparr> redis := Some b2 \<rparr>)))))"

definition cache_set ::
  "('r, 'v) libs \<Rightarrow> 'r cache_service \<Rightarrow> string \<Rightarrow> 'v \<Rightarrow> int option \<Rightarrow> bool \<times> 'r cache_service" where
  "cache_set lib cs key val ttl =
     (case get_redis lib cs of
        (b, cs1) \<Rightarrow>
          (case dumps lib val of
             Inl e \<Rightarrow> (False, add_log [Log_set_failed] cs1)
           | Inr data \<Rightarrow>
               (case (case ttl of
                        None \<Rightarrow> backend_set lib b (make_key cs1 key) data
                      | Some t \<Rightarrow>
                          (if t \<noteq> 0 then backend_setex lib b (make_key cs1 key) t data
                           else backend_set lib b (make_key cs1 key) data)) of
                  (Inl e, b2) \<Rightarrow> (False, add_log [Log_set_failed] (cs1 \<lparr> redis := Some b2 \<rparr>))
                | (Inr u, b2) \<Rightarrow> (True, add_log [Log_set_ok] (cs1 \<lparr> redis := Some b2 \<rparr>)))))"

definition cache_delete :: "('r, 'v) libs \<Rightarrow> 'r cache_service \<Rightarrow> string \<Rightarrow> bool \<times> 'r cache_service" where
  "cache_delete lib cs key =
     (case get_redis lib cs of
        (b, cs1) \<Rightarrow>
          (case backend_delete lib b [make_key cs1 key] of
             (Inl e, b2) \<Rightarrow> (False, add_log [Log_delete_failed] (cs1 \<lparr> redis := Some b2 \<rparr>))
           | (Inr n, b2) \<Rightarrow> (n > 0, add_log [Log_delete n] (cs1 \<lparr> redis := Some b2 \<rparr>))))"

definition cache_exists :: "('r, 'v) libs \<Rightarrow> 'r cache_service \<Rightarrow> string \<Rightarrow> bool \<times> 'r cache_service" where
  "cache_exists lib cs key =
     (case get_redis lib cs of
        (b, cs1) \<Rightarrow>
          (case backend_exists lib b (make_key cs1 key) of
             (Inl e, b2) \<Rightarrow> (False, add_log [Log_exists_failed] (cs1 \<lparr> redis := Some b2 \<rparr>))
           | (Inr n, b2) \<Rightarrow> (n > 0, cs1 \<lparr> redis := Some b2 \<rparr>)))"

definition clear_pattern :: "('r, 'v) libs \<Rightarrow> 'r cache_service \<Rightarrow> string \<Rightarrow> nat \<times> 'r cache_service" where
  "clear_pattern lib cs pattern =
     (case get_redis lib cs of
        (b, cs1) \<Rightarrow>
          (case backend_keys lib b (make_key cs1 pattern) of
             (Inl e, b2) \<Rightarrow> (0, add_log [Log_clear_failed] (cs1 \<lparr> redis := Some b2 \<rparr>))
           | (Inr keys, b2) \<Rightarrow>
               (if keys \<noteq> [] then
                  (case backend_delete lib b2 keys of
                     (Inl e, b3) \<Rightarrow> (0, add_log [Log_clear_failed] (cs1 \<lparr> redis := Some b3 \<rparr>))
                   | (Inr n, b3) \<Rightarrow> (n, add_log [Log_cleared n] (cs1 \<lparr> redis := Some b3 \<rparr>)))
                else (0, cs1 \<lparr> redis := Some b2 \<rparr>))))"

section \<open>Cache sweep (app/services/performance.py)\<close>

text \<open>\<open>PrecomputeService._cleanup_expired_cache\<close>, on the service's cache.\<close>

definition cleanup_expired_cache :: "('r, 'v) libs \<Rightarrow> 'r cache_service \<Rightarrow> 'r cache_service" where
  "cleanup_expired_cache lib cs =
     (case clear_pattern lib (add_log [Log_cleanup_start] cs) ''recommendations:*'' of
        (cleared_count, cs1) \<Rightarrow> add_log [Log_cleanup_done cleared_count] cs1)"

text \<open>
  A call of the cache service from outside, and the service after a sequence
  of calls.
\<close>

datatype 'v cache_call =
  Get string | Set string 'v "int option" | Delete string | Exists string | Clear_pattern string | Sweep

fun run_call :: "('r, 'v) libs \<Rightarrow> 'r cache_service \<Rightarrow> 'v cache_call \<Rightarrow> 'r cache_service" where
  "run_call lib cs (Get k) = snd (cache_get lib cs k)"
| "run_call lib cs (Set k v ttl) = snd (cache_set lib cs k v ttl)"
| "run_call lib cs (Delete k) = snd (cache_delete lib cs k)"
| "run_call lib cs (Exists k) = snd (cache_exists lib cs k)"
| "run_call lib cs (Clear_pattern p) = snd (clear_pattern lib cs p)"
| "run_call lib cs Sweep = cleanup_expired_cache lib cs"

definition run_calls :: "('r, 'v) libs \<Rightarrow> 'r cache_service \<Rightarrow> 'v cache_call list \<Rightarrow> 'r cache_service" where
  "run_calls lib cs calls = foldl (run_call lib) cs calls"

definition degradation_signals :: "'r cache_service \<Rightarrow> nat" where
  "degradation_signals cs = count_list (logged cs) Log_memory_fallback"

text \<open>The service runs on the in-process fallback; the content of its dict.\<close>

definition in_memory :: "'r cache_service \<Rightarrow> bool" where
  "in_memory cs = (\<exists>c. redis cs = Some (InMemoryCache c))"

definition memory_of :: "'r cache_service \<Rightarrow> (string \<times> string) list" where
  "memory_of cs = (case redis cs of Some (InMemoryCache c) \<Rightarrow> c | _ \<Rightarrow> [])"

text \<open>
  Two Redis libraries, with strings as cached values and the identity as
  serialisation: one whose \<open>from_url\<close> raises, and one whose \<open>from_url\<close> returns a
  client without connecting, every command of which then raises because the
  server cannot be reached.
\<close>

definition offline_libs :: "(unit, string) libs" where
  "offline_libs =
     \<lparr> connect = Inl ConnectionError,
       r_get = (\<lambda>r k. (Inl ConnectionError, r)),
       r_set = (\<lambda>r k v. (Inl ConnectionError, r)),
       r_setex = (\<lambda>r k t v. (Inl ConnectionError, r)),
       r_delete = (\<lambda>r ks. (Inl ConnectionError, r)),
       r_exists = (\<lambda>r k. (Inl ConnectionError, r)),
       r_keys = (\<lambda>r p. (Inl ConnectionError, r)),
       dumps = (\<lambda>v. Inr v),
       loads = (\<lambda>d. Inr d) \<rparr>"

definition unreachable_libs :: "(unit, string) libs" where
  "unreachable_libs = offline_libs \<lparr> connect := Inr () \<rparr>"

section \<open>Conditions and concrete inputs used in the statements\<close>

definition nonneg_weights :: "settings \<Rightarrow> bool" where
  "nonneg_weights st =
     (0 \<le> algorithm_weights_urgency st \<and> 0 \<le> algorithm_weights_importance st
      \<and> 0 \<le> algorithm_weights_personal_fit st \<and> 0 \<le> algorithm_weights_growth_value st)"

text \<open>
  A catalogue entry on which the second loop of the course generator cannot
  raise: \<open>id\<close> and \<open>title\<close> are present, \<open>finish_selections_num\<close> and \<open>desc\<close> are not
  null.
\<close>

definition well_formed_course :: "course \<Rightarrow> bool" where
  "well_formed_course c =
     (c_id c \<noteq> Absent \<and> c_title c \<noteq> Absent
      \<and> finish_selections_num c \<noteq> Null \<and> c_desc c \<noteq> Null)"

definition weights_sum :: "settings \<Rightarrow> real" where
  "weights_sum st =
     algorithm_weights_urgency st + algorithm_weights_importance st
     + algorithm_weights_personal_fit st + algorithm_weights_growth_value st"

text \<open>Weights 2, -1, 0, 0 (they sum to 1), and all the weight on importance.\<close>

definition negative_weight_settings :: settings where
  "negative_weight_settings =
     default_settings \<lparr> algorithm_weights_urgency := 2, algorithm_weights_importance := - 1,
       algorithm_weights_personal_fit := 0, algorithm_weights_growth_value := 0 \<rparr>"

definition importance_only_settings :: settings where
  "importance_only_settings =
     default_settings \<lparr> algorithm_weights_urgency := 0, algorithm_weights_importance := 1,
       algorithm_weights_personal_fit := 0, algorithm_weights_growth_value := 0 \<rparr>"

text \<open>Weights 0, 0, -9, 10 (they sum to 1).\<close>

definition negative_fit_settings :: settings where
  "negative_fit_settings =
     default_settings \<lparr> algorithm_weights_urgency := 0, algorithm_weights_importance := 0,
       algorithm_weights_personal_fit := - 9, algorithm_weights_growth_value := 10 \<rparr>"

definition plain_templates :: "unit templates" where
  "plain_templates =
     \<lparr> course_urgent_text = (\<lambda>i s d. ()),
       course_popular_text = (\<lambda>i c. ()),
       task_claim_text = (\<lambda>i p. ()),
       goal_talk_text = (\<lambda>g d. ()),
       report_time_text = (\<lambda>h. ()) \<rparr>"

definition fixed_clock :: "int \<Rightarrow> nat \<Rightarrow> int" where
  "fixed_clock t i = t"

text \<open>An aware UTC datetime a number of hours after the epoch of the clock.\<close>

definition hours_after :: "int \<Rightarrow> datetime" where
  "hours_after h = \<lparr> wall = h * 3600000000, tzinfo = Some 0 \<rparr>"

definition sample_selection :: "int \<Rightarrow> int \<Rightarrow> datetime \<Rightarrow> course_selection" where
  "sample_selection sid cid dl =
     \<lparr> sele_id = sid, sel_user_id = 51, user_name = [], course_title = [], course_id = cid,
       chapter_title = [], chapter_id = 0, current_serial = 0, sel_deadline = dl, url = [],
       shushi_id = None, shushi_name = None \<rparr>"

definition sample_project :: "int \<Rightarrow> datetime \<Rightarrow> real \<Rightarrow> real \<Rightarrow> inno_project" where
  "sample_project pid dl hours b =
     \<lparr> proj_id = pid, task_serial = [], proj_title = [], publisher = [], taker = None,
       taker_id = None, status = None, proj_deadline = dl, planed_hour = hours,
       bonus = Some b, task_text = None, desc = Some [], create_time = hours_after 0 \<rparr>"

definition sample_course :: "int \<Rightarrow> int \<Rightarrow> course" where
  "sample_course cid n =
     \<lparr> c_id = Value cid, c_title = Value [], finish_selections_num = Value n,
       c_desc = Absent, director_name = Absent \<rparr>"

definition sample_user_data :: "course_selection list \<Rightarrow> course list \<Rightarrow> inno_project list \<Rightarrow> user_data" where
  "sample_user_data ss cs ps =
     \<lparr> selections = ss, all_courses = cs, projects = ps, ud_goal = None, reports = [],
       ud_user_id = 51, token = [] \<rparr>"

text \<open>
  Every upstream call failed; a catalogue entry without any key; clock
  readings that stand still; a parser that rejects every string.
\<close>

definition all_failed :: api_results where
  "all_failed =
     \<lparr> r_selections = Inl UpstreamError, r_courses = Inl UpstreamError,
       r_projects = Inl UpstreamError, r_goal = Inl UpstreamError,
       r_reports = Inl UpstreamError \<rparr>"

definition keyless_course :: course where
  "keyless_course =
     \<lparr> c_id = Absent, c_title = Absent, finish_selections_num = Absent,
       c_desc = Absent, director_name = Absent \<rparr>"

definition still_clocks :: clocks where
  "still_clocks =
     \<lparr> courses_clock = fixed_clock 0, projects_clock = fixed_clock 0,
       goal_now = 0, reports_now = 0 \<rparr>"

definition no_parser :: "string \<Rightarrow> error + datetime" where
  "no_parser s = Inl ValueError"

section \<open>Properties of the diversity selector\<close>

lemma sorted_recs_desc: "sorted_wrt (\<lambda>a b. score b \<le> score a) (sorted_recs rs)"
proof -
  have "sorted (map (\<lambda>x. - score x) (sorted_recs rs))"
    unfolding sorted_recs_def by (rule sorted_sort_key)
  then show ?thesis
    by (simp add: sorted_map sorted_wrt_iff_nth_less)
qed

lemma set_sorted_recs: "set (sorted_recs rs) = set rs"
  by (simp add: sorted_recs_def)

lemma diversity_loop_length: "length selected \<le> 3 \<Longrightarrow> length (diversity_loop rs selected used) \<le> 3"
  by (induction rs selected used rule: diversity_loop.induct) auto

lemma fill_loop_length: "length selected \<le> 3 \<Longrightarrow> length (fill_loop rs selected) \<le> 3"
  by (induction rs selected rule: fill_loop.induct) auto

lemma diversity_loop_inv:
  "distinct (map rec_category selected) \<Longrightarrow> used = rec_category ` set selected \<Longrightarrow>
   distinct (map rec_category (diversity_loop rs selected used)) \<and>
   (3 \<le> length (diversity_loop rs selected used) \<or>
      rec_category ` set rs \<subseteq> rec_category ` set (diversity_loop rs selected used)) \<and>
   rec_category ` set selected \<subseteq> rec_category ` set (diversity_loop rs selected used)"
proof (induction rs selected used rule: diversity_loop.induct)
  case (1 selected used)
  then show ?case by simp
next
  case (2 r rs selected used)
  show ?case
  proof (cases "3 \<le> length selected")
    case True
    with 2 show ?thesis by simp
  next
    case False
    show ?thesis
    proof (cases "rec_category r \<in> used")
      case True
      with False 2 show ?thesis by auto
    next
      case nin: False
      have d: "distinct (map rec_category (selected @ [r]))"
        using nin "2.prems" by auto
      have u: "insert (rec_category r) used = rec_category ` set (selected @ [r])"
        using "2.prems" by auto
      from "2.IH"(1)[OF _ nin d u] False
      show ?thesis using nin False by auto
    qed
  qed
qed

lemma diversity_loop_subset:
  "set (diversity_loop rs selected used) \<subseteq> set selected \<union> set rs"
  by (induction rs selected used rule: diversity_loop.induct) auto

lemma diversity_loop_sorted:
  "sorted_wrt P (selected @ rs) \<Longrightarrow> sorted_wrt P (diversity_loop rs selected used)"
  by (induction rs selected used rule: diversity_loop.induct)
     (auto simp: sorted_wrt_append)

lemma fill_loop_append:
  "\<exists>fs. fill_loop rs selected = selected @ fs \<and> (sorted_wrt P rs \<longrightarrow> sorted_wrt P fs) \<and> set fs \<subseteq> set rs"
proof (induction rs selected rule: fill_loop.induct)
  case (1 selected)
  then show ?case by simp
next
  case (2 r rs selected)
  show ?case
  proof (cases "3 \<le> length selected")
    case True
    then show ?thesis by simp
  next
    case False
    show ?thesis
    proof (cases "r \<in> set selected")
      case True
      with False 2 show ?thesis by auto
    next
      case nin: False
      from "2.IH"(1)[OF _ nin] False obtain fs where
        fs: "fill_loop rs (selected @ [r]) = (selected @ [r]) @ fs"
            "sorted_wrt P rs \<longrightarrow> sorted_wrt P fs" "set fs \<subseteq> set rs"
        by auto
      have "fill_loop (r # rs) selected = selected @ (r # fs)"
        using False nin fs(1) by simp
      moreover have "sorted_wrt P (r # rs) \<longrightarrow> sorted_wrt P (r # fs)"
        using fs(2,3) by auto
      moreover have "set (r # fs) \<subseteq> set (r # rs)" using fs(3) by auto
      ultimately show ?thesis by blast
    qed
  qed
qed


lemma fill_loop_full: "3 \<le> length selected \<Longrightarrow> fill_loop rs selected = selected"
  by (cases rs) auto

lemma diversity_picks_props:
  "length (diversity_picks recs) \<le> 3"
  "distinct (map rec_category (diversity_picks recs))"
  "3 \<le> length (diversity_picks recs) \<or> rec_category ` set recs \<subseteq> rec_category ` set (diversity_picks recs)"
  "sorted_wrt (\<lambda>a b. score b \<le> score a) (diversity_picks recs)"
proof -
  show "length (diversity_picks recs) \<le> 3"
    unfolding diversity_picks_def by (rule diversity_loop_length) simp
  have inv: "distinct (map rec_category (diversity_loop (sorted_recs recs) [] {})) \<and>
   (3 \<le> length (diversity_loop (sorted_recs recs) [] {}) \<or>
      rec_category ` set (sorted_recs recs) \<subseteq> rec_category ` set (diversity_loop (sorted_recs recs) [] {})) \<and>
   rec_category ` set [] \<subseteq> rec_category ` set (diversity_loop (sorted_recs recs) [] {})"
    using diversity_loop_inv[of "[]" "{}" "sorted_recs recs"] by simp
  from inv show "distinct (map rec_category (diversity_picks recs))"
    unfolding diversity_picks_def by blast
  from inv show "3 \<le> length (diversity_picks recs) \<or> rec_category ` set recs \<subseteq> rec_category ` set (diversity_picks recs)"
    unfolding diversity_picks_def set_sorted_recs by blast
  show "sorted_wrt (\<lambda>a b. score b \<le> score a) (diversity_picks recs)"
    unfolding diversity_picks_def
    by (rule diversity_loop_sorted) (simp add: sorted_recs_desc)
qed

lemma select_as_picks:
  "\<exists>fs. select_top3_with_diversity recs = diversity_picks recs @ fs
      \<and> sorted_wrt (\<lambda>a b. score b \<le> score a) fs \<and> set fs \<subseteq> set recs
      \<and> (3 \<le> length (diversity_picks recs) \<longrightarrow> fs = [])"
proof (cases "recs = []")
  case True
  then show ?thesis
    by (simp add: select_top3_with_diversity_def diversity_picks_def sorted_recs_def)
next
  case False
  let ?ds = "diversity_picks recs"
  obtain fs where fs: "fill_loop (sorted_recs recs) ?ds = ?ds @ fs"
     "sorted_wrt (\<lambda>a b. score b \<le> score a) (sorted_recs recs) \<longrightarrow> sorted_wrt (\<lambda>a b. score b \<le> score a) fs"
     "set fs \<subseteq> set (sorted_recs recs)"
    using fill_loop_append[of "sorted_recs recs" ?ds "\<lambda>a b. score b \<le> score a"] by blast
  have len: "length ?ds \<le> 3" by (rule diversity_picks_props)
  have sel: "select_top3_with_diversity recs = ?ds @ take (3 - length ?ds) fs"
    using False len fs(1)
    by (simp add: select_top3_with_diversity_def Let_def diversity_picks_def)
  have "sorted_wrt (\<lambda>a b. score b \<le> score a) (take (3 - length ?ds) fs)"
    using fs(2) sorted_recs_desc[of recs] by (simp add: sorted_wrt_take)
  moreover have "set (take (3 - length ?ds) fs) \<subseteq> set recs"
    using fs(3) set_take_subset[of "3 - length ?ds" fs] by (auto simp: set_sorted_recs)
  moreover have "3 \<le> length ?ds \<longrightarrow> take (3 - length ?ds) fs = []" by simp
  ultimately show ?thesis using sel by blast
qed

lemma sample_category:
  "rec_category (sample_item COURSE_URGENT s) = ''COURSE''"
  "rec_category (sample_item COURSE_POPULAR s) = ''COURSE''"
  "rec_category (sample_item TASK_CLAIM s) = ''TASK''"
  "rec_category (sample_item GOAL_TALK s) = ''GOAL''"
  by (simp_all add: rec_category_def split_first_def sample_item_def)

lemma sample_score: "score (sample_item t s) = s"
  by (simp add: sample_item_def)

lemma sample_eq: "sample_item t s = sample_item t' s' \<longleftrightarrow> t = t' \<and> s = s'"
  by (auto simp: sample_item_def)

lemma select_test_pool:
  "select_top3_with_diversity
      [sample_item COURSE_URGENT 95, sample_item COURSE_POPULAR 85,
       sample_item TASK_CLAIM 92, sample_item GOAL_TALK 88]
    = [sample_item COURSE_URGENT 95, sample_item TASK_CLAIM 92, sample_item GOAL_TALK 88]"
  by (simp add: select_top3_with_diversity_def sorted_recs_def sample_category Let_def
        sample_score sample_eq)

lemma select_two_courses:
  "select_top3_with_diversity
      [sample_item COURSE_URGENT 95, sample_item COURSE_POPULAR 90, sample_item TASK_CLAIM 80]
    = [sample_item COURSE_URGENT 95, sample_item TASK_CLAIM 80, sample_item COURSE_POPULAR 90]"
  by (simp add: select_top3_with_diversity_def sorted_recs_def sample_category Let_def
        sample_score sample_eq)

lemma picks_two_courses:
  "diversity_picks
      [sample_item COURSE_URGENT 95, sample_item COURSE_POPULAR 90, sample_item TASK_CLAIM 80]
    = [sample_item COURSE_URGENT 95, sample_item TASK_CLAIM 80]"
  by (simp add: diversity_picks_def sorted_recs_def sample_category sample_score)

lemma diversity_picks_subset: "set (diversity_picks recs) \<subseteq> set recs"
  using diversity_loop_subset[of "sorted_recs recs" "[]" "{}"]
  by (simp add: diversity_picks_def set_sorted_recs)

lemma select_subset: "set (select_top3_with_diversity recs) \<subseteq> set recs"
proof -
  obtain fs where "select_top3_with_diversity recs = diversity_picks recs @ fs" "set fs \<subseteq> set recs"
    using select_as_picks[of recs] by blast
  with diversity_picks_subset[of recs] show ?thesis by simp
qed

text \<open>
  Claim C1. For every non-empty candidate pool the selector returns at most 3
  items, all of them candidates of the pool, and when the candidates with a
  positive score have at least 3 distinct top-level categories (the type tag up
  to its first underscore), the returned items have exactly 3 distinct
  top-level categories.
\<close>

theorem select_top3_diversity:
  assumes "recs \<noteq> []"
  shows "length (select_top3_with_diversity recs) \<le> 3 \<and>
         set (select_top3_with_diversity recs) \<subseteq> set recs \<and>
         (3 \<le> card (rec_category ` {r \<in> set recs. 0 < score r}) \<longrightarrow>
            card (rec_category ` set (select_top3_with_diversity recs)) = 3)"
proof (intro conjI)
  let ?ds = "diversity_picks recs"
  show "set (select_top3_with_diversity recs) \<subseteq> set recs" by (rule select_subset)
  obtain fs where fs: "select_top3_with_diversity recs = ?ds @ fs"
      "3 \<le> length ?ds \<longrightarrow> fs = []"
    using select_as_picks[of recs] by blast
  have len: "length ?ds \<le> 3" by (rule diversity_picks_props)
  show "length (select_top3_with_diversity recs) \<le> 3"
    using assms by (simp add: select_top3_with_diversity_def Let_def)
  show "3 \<le> card (rec_category ` {r \<in> set recs. 0 < score r}) \<longrightarrow>
            card (rec_category ` set (select_top3_with_diversity recs)) = 3"
  proof
    assume three: "3 \<le> card (rec_category ` {r \<in> set recs. 0 < score r})"
    have "card (rec_category ` {r \<in> set recs. 0 < score r}) \<le> card (rec_category ` set recs)"
      by (rule card_mono) auto
    with three have all3: "3 \<le> card (rec_category ` set recs)" by simp
    have dist: "distinct (map rec_category ?ds)" by (rule diversity_picks_props)
    have cardds: "card (rec_category ` set ?ds) = length ?ds"
      using distinct_card[OF dist] by simp
    have full: "3 \<le> length ?ds"
    proof (rule ccontr)
      assume "\<not> 3 \<le> length ?ds"
      with diversity_picks_props(3)[of recs]
      have "rec_category ` set recs \<subseteq> rec_category ` set ?ds" by blast
      then have "card (rec_category ` set recs) \<le> card (rec_category ` set ?ds)"
        by (intro card_mono) auto
      with all3 cardds \<open>\<not> 3 \<le> length ?ds\<close> show False by simp
    qed
    with fs have "select_top3_with_diversity recs = ?ds" by simp
    with cardds full len show "card (rec_category ` set (select_top3_with_diversity recs)) = 3"
      by simp
  qed
qed

theorem select_top3_diversity_witness:
  "[sample_item COURSE_URGENT 95, sample_item COURSE_POPULAR 85,
    sample_item TASK_CLAIM 92, sample_item GOAL_TALK 88] \<noteq> []
   \<and> 3 \<le> card (rec_category ` {r \<in> set [sample_item COURSE_URGENT 95, sample_item COURSE_POPULAR 85,
          sample_item TASK_CLAIM 92, sample_item GOAL_TALK 88]. 0 < score r})
   \<and> set (select_top3_with_diversity
        [sample_item COURSE_URGENT 95, sample_item COURSE_POPULAR 85,
         sample_item TASK_CLAIM 92, sample_item GOAL_TALK 88])
       \<subseteq> set [sample_item COURSE_URGENT 95, sample_item COURSE_POPULAR 85,
         sample_item TASK_CLAIM 92, sample_item GOAL_TALK 88]
   \<and> card (rec_category ` set (select_top3_with_diversity
        [sample_item COURSE_URGENT 95, sample_item COURSE_POPULAR 85,
         sample_item TASK_CLAIM 92, sample_item GOAL_TALK 88])) = 3"
proof -
  let ?pool = "[sample_item COURSE_URGENT 95, sample_item COURSE_POPULAR 85,
    sample_item TASK_CLAIM 92, sample_item GOAL_TALK 88]"
  have pos: "{r \<in> set ?pool. 0 < score r} = set ?pool"
    by (auto simp: sample_score)
  have three: "3 \<le> card (rec_category ` {r \<in> set ?pool. 0 < score r})"
    unfolding pos by (simp add: sample_category)
  have ne: "?pool \<noteq> []" by simp
  from select_top3_diversity[OF ne] three
  have "card (rec_category ` set (select_top3_with_diversity ?pool)) = 3"
    and "set (select_top3_with_diversity ?pool) \<subseteq> set ?pool" by blast+
  with three ne show ?thesis by blast
qed

text \<open>
  Claim C9, as stated: the result is sorted by totalScore descending. It is not:
  with two course candidates (95, 90) and one task candidate (80) the first loop
  takes the course at 95 and the task at 80, and the second loop appends the
  course at 90 behind them.
\<close>

theorem select_not_sorted_counterexample:
  "\<not> score_descending (select_top3_with_diversity
      [sample_item COURSE_URGENT 95, sample_item COURSE_POPULAR 90, sample_item TASK_CLAIM 80])"
  by (simp add: select_two_courses score_descending_def sample_score)

text \<open>
  Claim C9, amended. The result has at most 3 items. It begins with the items
  of the category walk (the best item of each new top-level category), which
  are in descending score order; the fill items behind them are in descending
  score order among themselves and come from categories already taken; and the
  whole result is in descending score order when the category walk alone fills
  the three places.
\<close>

theorem select_top3_order:
  "length (select_top3_with_diversity recs) \<le> 3 \<and>
   take (length (diversity_picks recs)) (select_top3_with_diversity recs) = diversity_picks recs \<and>
   score_descending (diversity_picks recs) \<and>
   score_descending (drop (length (diversity_picks recs)) (select_top3_with_diversity recs)) \<and>
   (\<forall>f \<in> set (drop (length (diversity_picks recs)) (select_top3_with_diversity recs)).
       rec_category f \<in> rec_category ` set (diversity_picks recs)) \<and>
   (3 \<le> length (diversity_picks recs) \<longrightarrow> score_descending (select_top3_with_diversity recs))"
proof -
  let ?ds = "diversity_picks recs"
  obtain fs where fs: "select_top3_with_diversity recs = ?ds @ fs"
      "sorted_wrt (\<lambda>a b. score b \<le> score a) fs" "set fs \<subseteq> set recs"
      "3 \<le> length ?ds \<longrightarrow> fs = []"
    using select_as_picks[of recs] by blast
  have len: "length ?ds \<le> 3" by (rule diversity_picks_props)
  have srt: "score_descending ?ds"
    unfolding score_descending_def by (rule diversity_picks_props)
  have l3: "length (select_top3_with_diversity recs) \<le> 3"
    by (simp add: select_top3_with_diversity_def Let_def)
  have cats: "\<forall>f \<in> set fs. rec_category f \<in> rec_category ` set ?ds"
  proof (cases "3 \<le> length ?ds")
    case True
    with fs(4) show ?thesis by simp
  next
    case False
    with diversity_picks_props(3)[of recs]
    have "rec_category ` set recs \<subseteq> rec_category ` set ?ds" by blast
    with fs(3) show ?thesis by blast
  qed
  have whole: "3 \<le> length ?ds \<longrightarrow> score_descending (select_top3_with_diversity recs)"
    using fs(1,4) srt by simp
  show ?thesis
    using l3 srt cats whole fs(2) unfolding fs(1) score_descending_def by simp
qed

theorem select_top3_order_witness:
  "drop (length (diversity_picks
      [sample_item COURSE_URGENT 95, sample_item COURSE_POPULAR 90, sample_item TASK_CLAIM 80]))
     (select_top3_with_diversity
      [sample_item COURSE_URGENT 95, sample_item COURSE_POPULAR 90, sample_item TASK_CLAIM 80])
     = [sample_item COURSE_POPULAR 90]
   \<and> rec_category (sample_item COURSE_POPULAR 90) \<in> rec_category ` set (diversity_picks
      [sample_item COURSE_URGENT 95, sample_item COURSE_POPULAR 90, sample_item TASK_CLAIM 80])
   \<and> 3 \<le> length (diversity_picks
      [sample_item COURSE_URGENT 95, sample_item COURSE_POPULAR 85,
       sample_item TASK_CLAIM 92, sample_item GOAL_TALK 88])
   \<and> score_descending (select_top3_with_diversity
      [sample_item COURSE_URGENT 95, sample_item COURSE_POPULAR 85,
       sample_item TASK_CLAIM 92, sample_item GOAL_TALK 88])"
proof -
  let ?p = "[sample_item COURSE_URGENT 95, sample_item COURSE_POPULAR 90, sample_item TASK_CLAIM 80]"
  let ?q = "[sample_item COURSE_URGENT 95, sample_item COURSE_POPULAR 85,
       sample_item TASK_CLAIM 92, sample_item GOAL_TALK 88]"
  have d: "drop (length (diversity_picks ?p)) (select_top3_with_diversity ?p) = [sample_item COURSE_POPULAR 90]"
    by (simp add: select_two_courses picks_two_courses)
  have "\<forall>f \<in> set (drop (length (diversity_picks ?p)) (select_top3_with_diversity ?p)).
       rec_category f \<in> rec_category ` set (diversity_picks ?p)"
    using select_top3_order[of ?p] by blast
  then have c: "rec_category (sample_item COURSE_POPULAR 90) \<in> rec_category ` set (diversity_picks ?p)"
    unfolding d by simp
  have l: "3 \<le> length (diversity_picks ?q)"
    by (simp add: diversity_picks_def sorted_recs_def sample_category sample_score)
  with select_top3_order[of ?q] have "score_descending (select_top3_with_diversity ?q)" by blast
  with d c l show ?thesis by blast
qed

section \<open>Properties of the scorer and the generators\<close>

lemma total_score_upper: "calculate_total_score st u i f g \<le> 100"
  by (simp add: calculate_total_score_def Let_def)

lemma total_score_nonneg:
  assumes "nonneg_weights st" "0 \<le> u" "0 \<le> i" "0 \<le> f" "0 \<le> g"
  shows "0 \<le> calculate_total_score st u i f g"
  using assms by (simp add: calculate_total_score_def Let_def nonneg_weights_def)

lemma urgency_course_range: "in_score_range (calculate_urgency_score d ''COURSE'')"
  by (simp add: calculate_urgency_score_def in_score_range_def)

lemma urgency_project_range: "in_score_range (calculate_urgency_score d ''PROJECT'')"
  by (simp add: calculate_urgency_score_def in_score_range_def)

lemma RecommendationItem_Inr: "RecommendationItem r = Inr r' \<Longrightarrow> r' = r"
  by (auto simp: RecommendationItem_def split: if_splits)

lemma course_urgent_item_valid:
  assumes "nonneg_weights st"
  shows "RecommendationItem (course_urgent_item st tp i now s) = Inr (course_urgent_item st tp i now s)"
proof -
  let ?u = "calculate_urgency_score (days (dt_sub (with_utc (sel_deadline s)) (utc_now now))) ''COURSE''"
  have u: "in_score_range ?u" by (rule urgency_course_range)
  then have "0 \<le> ?u" by (simp add: in_score_range_def)
  then have "0 \<le> calculate_total_score st ?u 85 90 70"
    using assms by (intro total_score_nonneg) simp_all
  then have "in_score_range (calculate_total_score st ?u 85 90 70)"
    by (simp add: in_score_range_def total_score_upper)
  with u show ?thesis
    by (simp add: RecommendationItem_def course_urgent_item_def Let_def in_score_range_def)
qed

lemma urgent_loop_total:
  assumes "nonneg_weights st"
  shows "\<exists>recs. urgent_loop st tp clk i ss = Inr recs"
proof (induction ss arbitrary: i)
  case Nil
  then show ?case by simp
next
  case (Cons s ss)
  from Cons[of "Suc i"] obtain recs where "urgent_loop st tp clk (Suc i) ss = Inr recs" by blast
  then show ?case
    by (simp add: course_urgent_item_valid[OF assms])
qed

lemma urgent_loop_tail:
  "urgent_loop st tp clk i (s # ss) = Inr recs \<Longrightarrow>
   \<exists>recs'. urgent_loop st tp clk (Suc i) ss = Inr recs' \<and> set recs' \<subseteq> set recs"
  by (auto split: sum.splits if_splits)

lemma urgent_loop_mem:
  "urgent_loop st tp clk i ss = Inr recs \<Longrightarrow> j < length ss \<Longrightarrow>
   days (dt_sub (with_utc (sel_deadline (ss ! j))) (utc_now (clk (i + j)))) \<le> 3 \<Longrightarrow>
   course_urgent_item st tp (i + j) (clk (i + j)) (ss ! j) \<in> set recs"
proof (induction ss arbitrary: i j recs)
  case Nil
  then show ?case by simp
next
  case (Cons s ss)
  show ?case
  proof (cases j)
    case 0
    with Cons.prems show ?thesis
      by (auto split: sum.splits dest: RecommendationItem_Inr)
  next
    case (Suc k)
    from urgent_loop_tail[OF Cons.prems(1)]
    obtain recs' where r': "urgent_loop st tp clk (Suc i) ss = Inr recs'"
      and sub: "set recs' \<subseteq> set recs" by blast
    from Cons.IH[OF r', of k] Cons.prems Suc
    have "course_urgent_item st tp (Suc i + k) (clk (Suc i + k)) (ss ! k) \<in> set recs'" by simp
    with sub Suc show ?thesis by auto
  qed
qed

lemma urgent_loop_items:
  "urgent_loop st tp clk i ss = Inr recs \<Longrightarrow> r \<in> set recs \<Longrightarrow>
   \<exists>j < length ss. days (dt_sub (with_utc (sel_deadline (ss ! j))) (utc_now (clk (i + j)))) \<le> 3
       \<and> r = course_urgent_item st tp (i + j) (clk (i + j)) (ss ! j)"
proof (induction ss arbitrary: i recs)
  case Nil
  then show ?case by simp
next
  case (Cons s ss)
  show ?case
  proof (cases "days (dt_sub (with_utc (sel_deadline s)) (utc_now (clk i))) \<le> 3")
    case True
    with Cons.prems obtain recs' where r': "urgent_loop st tp clk (Suc i) ss = Inr recs'"
      and recs: "recs = course_urgent_item st tp i (clk i) s # recs'"
      by (auto split: sum.splits dest: RecommendationItem_Inr)
    show ?thesis
    proof (cases "r = course_urgent_item st tp i (clk i) s")
      case True
      with \<open>days (dt_sub (with_utc (sel_deadline s)) (utc_now (clk i))) \<le> 3\<close>
      have "0 < length (s # ss) \<and> days (dt_sub (with_utc (sel_deadline ((s # ss) ! 0))) (utc_now (clk (i + 0)))) \<le> 3
        \<and> r = course_urgent_item st tp (i + 0) (clk (i + 0)) ((s # ss) ! 0)" by simp
      then show ?thesis by blast
    next
      case False
      with Cons.prems recs have "r \<in> set recs'" by simp
      from Cons.IH[OF r' this] obtain k where k: "k < length ss"
        "days (dt_sub (with_utc (sel_deadline (ss ! k))) (utc_now (clk (Suc i + k)))) \<le> 3"
        "r = course_urgent_item st tp (Suc i + k) (clk (Suc i + k)) (ss ! k)" by blast
      then have "Suc k < length (s # ss) \<and>
        days (dt_sub (with_utc (sel_deadline ((s # ss) ! Suc k))) (utc_now (clk (i + Suc k)))) \<le> 3
        \<and> r = course_urgent_item st tp (i + Suc k) (clk (i + Suc k)) ((s # ss) ! Suc k)" by simp
      then show ?thesis by blast
    qed
  next
    case False
    with Cons.prems have r': "urgent_loop st tp clk (Suc i) ss = Inr recs" by simp
    from Cons.IH[OF r' Cons.prems(2)] obtain k where k: "k < length ss"
        "days (dt_sub (with_utc (sel_deadline (ss ! k))) (utc_now (clk (Suc i + k)))) \<le> 3"
        "r = course_urgent_item st tp (Suc i + k) (clk (Suc i + k)) (ss ! k)" by blast
    then have "Suc k < length (s # ss) \<and>
        days (dt_sub (with_utc (sel_deadline ((s # ss) ! Suc k))) (utc_now (clk (i + Suc k)))) \<le> 3
        \<and> r = course_urgent_item st tp (i + Suc k) (clk (i + Suc k)) ((s # ss) ! Suc k)" by simp
    then show ?thesis by blast
  qed
qed


lemma popular_importance_range:
  "5 \<le> finish_num c \<Longrightarrow> in_score_range (60 + min (real_of_int (finish_num c * 2)) 30)"
  by (simp add: in_score_range_def min_def)

lemma course_popular_item_valid:
  assumes "nonneg_weights st" "5 \<le> finish_num c"
  shows "RecommendationItem (course_popular_item st tp i c) = Inr (course_popular_item st tp i c)"
proof -
  have imp: "in_score_range (60 + min (real_of_int (finish_num c * 2)) 30)"
    using assms(2) by (rule popular_importance_range)
  then have "0 \<le> 60 + min (real_of_int (finish_num c * 2)) 30" by (simp add: in_score_range_def)
  then have "0 \<le> course_popular_score st c"
    unfolding course_popular_score_def using assms(1) by (intro total_score_nonneg) simp_all
  then have "in_score_range (course_popular_score st c)"
    by (simp add: in_score_range_def course_popular_score_def total_score_upper)
  with imp show ?thesis
    by (simp add: RecommendationItem_def course_popular_item_def in_score_range_def)
qed

lemma popular_loop_total:
  assumes "nonneg_weights st" "\<forall>c \<in> set cs. well_formed_course c"
  shows "\<exists>recs. popular_loop st tp sel i cs = Inr recs"
  using assms(2)
proof (induction cs arbitrary: i)
  case Nil
  then show ?case by simp
next
  case (Cons c cs)
  from Cons obtain recs where "popular_loop st tp sel (Suc i) cs = Inr recs" by fastforce
  moreover from Cons.prems have "well_formed_course c" by simp
  ultimately show ?case
    by (simp add: course_popular_item_valid[OF assms(1)] well_formed_course_def)
qed

lemma popular_loop_items:
  "popular_loop st tp sel i cs = Inr recs \<Longrightarrow> r \<in> set recs \<Longrightarrow>
   \<exists>c \<in> set cs. \<exists>k. c_id c \<noteq> Absent \<and> \<not> id_selected (c_id c) sel \<and> 5 \<le> finish_num c
       \<and> 60 \<le> course_popular_score st c \<and> r = course_popular_item st tp k c"
proof (induction cs arbitrary: i recs)
  case Nil
  then show ?case by simp
next
  case (Cons c cs)
  from Cons.prems(1) have present: "c_id c \<noteq> Absent"
    by (auto split: if_splits)
  show ?case
  proof (cases "\<not> id_selected (c_id c) sel \<and> 5 \<le> finish_num c \<and> 60 \<le> course_popular_score st c")
    case True
    with Cons.prems(1) present obtain recs' where r': "popular_loop st tp sel (Suc i) cs = Inr recs'"
      and recs: "recs = course_popular_item st tp i c # recs'"
      by (auto split: sum.splits if_splits dest: RecommendationItem_Inr)
    show ?thesis
    proof (cases "r = course_popular_item st tp i c")
      case True
      with \<open>\<not> id_selected (c_id c) sel \<and> 5 \<le> finish_num c \<and> 60 \<le> course_popular_score st c\<close> present
      show ?thesis by auto
    next
      case False
      with Cons.prems recs have "r \<in> set recs'" by simp
      from Cons.IH[OF r' this] show ?thesis by auto
    qed
  next
    case False
    with Cons.prems(1) present have r': "popular_loop st tp sel (Suc i) cs = Inr recs"
      by (auto split: if_splits)
    from Cons.IH[OF r' Cons.prems(2)] show ?thesis by auto
  qed
qed

lemma project_loop_tail:
  "project_loop st tp ud clk i (p # ps) = Inr recs \<Longrightarrow>
   \<exists>recs'. project_loop st tp ud clk (Suc i) ps = Inr recs' \<and> set recs' \<subseteq> set recs"
  by (auto split: sum.splits if_splits option.splits)

lemma project_loop_mem:
  "project_loop st tp ud clk i ps = Inr recs \<Longrightarrow> j < length ps \<Longrightarrow>
   taker_id (ps ! j) = None \<Longrightarrow> 50 \<le> task_claim_score st ud (clk (i + j)) (ps ! j) \<Longrightarrow>
   task_claim_item st tp ud (i + j) (clk (i + j)) (ps ! j) \<in> set recs"
proof (induction ps arbitrary: i j recs)
  case Nil
  then show ?case by simp
next
  case (Cons p ps)
  show ?case
  proof (cases j)
    case 0
    with Cons.prems show ?thesis
      by (auto split: sum.splits option.splits dest: RecommendationItem_Inr)
  next
    case (Suc k)
    from project_loop_tail[OF Cons.prems(1)]
    obtain recs' where r': "project_loop st tp ud clk (Suc i) ps = Inr recs'"
      and sub: "set recs' \<subseteq> set recs" by blast
    from Cons.IH[OF r', of k] Cons.prems Suc
    have "task_claim_item st tp ud (Suc i + k) (clk (Suc i + k)) (ps ! k) \<in> set recs'" by simp
    with sub Suc show ?thesis by auto
  qed
qed

lemma total_default: "calculate_total_score default_settings u i f g
   = min (u * (35/100) + i * (30/100) + f * (25/100) + g * (10/100)) 100"
  by (simp add: calculate_total_score_def default_settings_def Let_def)

lemma sample_fields:
  "sel_deadline (sample_selection sid cid dl) = dl"
  "sele_id (sample_selection sid cid dl) = sid"
  "course_id (sample_selection sid cid dl) = cid"
  "proj_deadline (sample_project pid dl h b) = dl"
  "taker_id (sample_project pid dl h b) = None"
  "desc (sample_project pid dl h b) = Some []"
  "planed_hour (sample_project pid dl h b) = h"
  "bonus (sample_project pid dl h b) = Some b"
  "proj_id (sample_project pid dl h b) = pid"
  "c_id (sample_course cid n) = Value cid"
  "c_title (sample_course cid n) = Value []"
  "finish_selections_num (sample_course cid n) = Value n"
  "c_desc (sample_course cid n) = Absent"
  "finish_num (sample_course cid n) = n"
  "selections (sample_user_data ss cs ps) = ss"
  "all_courses (sample_user_data ss cs ps) = cs"
  "projects (sample_user_data ss cs ps) = ps"
  by (simp_all add: sample_selection_def sample_project_def sample_course_def
        sample_user_data_def finish_num_def)

lemma days_hours_after:
  "days (dt_sub (with_utc (hours_after h)) (utc_now (fixed_clock 0 i))) = h div 24"
proof -
  have "dt_sub (with_utc (hours_after h)) (utc_now (fixed_clock 0 i)) = h * 3600000000"
    by (simp add: dt_sub_def with_utc_def hours_after_def utc_now_def fixed_clock_def utc_micros_def)
  moreover have "(h * 3600000000) div 86400000000 = h div 24"
  proof -
    have "(h * 3600000000) div (24 * 3600000000) = h div 24"
      by (rule div_mult_mult2) simp
    then show ?thesis by simp
  qed
  ultimately show ?thesis by (simp add: days_def micros_per_day_def)
qed

lemma delta_hours_after:
  "dt_sub (with_utc (hours_after h)) (utc_now (fixed_clock 0 i)) = h * 3600000000"
  by (simp add: dt_sub_def with_utc_def hours_after_def utc_now_def fixed_clock_def utc_micros_def)

lemma default_nonneg: "nonneg_weights default_settings"
  by (simp add: nonneg_weights_def default_settings_def)

text \<open>
  Claim C4, as stated: for every four weights that sum to 1 and sub-scores in
  [0,100] the total lies in [0,100]. The total is bounded above only: with the
  weights 2, -1, 0, 0 and an importance of 100 it is -100.
\<close>

theorem total_score_negative_counterexample:
  "weights_sum negative_weight_settings = 1
   \<and> in_score_range 0 \<and> in_score_range 100
   \<and> calculate_total_score negative_weight_settings 0 100 0 0 = - 100
   \<and> \<not> in_score_range (calculate_total_score negative_weight_settings 0 100 0 0)"
  by (simp add: weights_sum_def negative_weight_settings_def default_settings_def
        in_score_range_def calculate_total_score_def Let_def)

text \<open>
  Claim C4, amended. For every four weights that are non-negative and sum to 1
  and every four sub-scores in [0,100], the total score (the weighted sum,
  bounded above by 100) lies in [0,100].
\<close>

theorem total_score_in_range:
  assumes "nonneg_weights st" "weights_sum st = 1"
    "in_score_range u" "in_score_range i" "in_score_range f" "in_score_range g"
  shows "in_score_range (calculate_total_score st u i f g)"
  using assms total_score_nonneg[of st u i f g] total_score_upper[of st u i f g]
  by (simp add: in_score_range_def)

theorem total_score_in_range_witness:
  "nonneg_weights default_settings \<and> weights_sum default_settings = 1
   \<and> in_score_range 90 \<and> in_score_range 80 \<and> in_score_range 85 \<and> in_score_range 70
   \<and> in_score_range (calculate_total_score default_settings 90 80 85 70)
   \<and> calculate_total_score default_settings 90 80 85 70 = 8375 / 100"
proof -
  have w: "weights_sum default_settings = 1"
    by (simp add: weights_sum_def default_settings_def)
  have r: "in_score_range 90" "in_score_range 80" "in_score_range 85" "in_score_range 70"
    by (simp_all add: in_score_range_def)
  have "in_score_range (calculate_total_score default_settings 90 80 85 70)"
    by (rule total_score_in_range[OF default_nonneg w r])
  moreover have "calculate_total_score default_settings 90 80 85 70 = 8375 / 100"
    by (simp add: total_default)
  ultimately show ?thesis using default_nonneg w r by blast
qed

text \<open>
  Claim C3, as stated: the sub-scores 85, 85, 90, 70 under the weights
  0.35/0.30/0.25/0.10 give a total of about 84.25. The weighted sum is
  29.75 + 25.5 + 22.5 + 7 = 84.75, half a point away.
\<close>

theorem score_84_25_counterexample:
  "calculate_total_score default_settings 85 85 90 70 = 8475 / 100
   \<and> \<bar>calculate_total_score default_settings 85 85 90 70 - 8425 / 100\<bar> = 1 / 2"
  by (simp add: total_default)

text \<open>
  Claim C3, amended. For a user with one course selection whose deadline is 2
  whole days away, under the default weights and thresholds, the course
  generator emits one course-urgent candidate with the sub-scores urgency 85,
  importance 85, fit 90 and growth 70, a total score of 84.75 and the urgency
  level high (48 hours: above the critical threshold of 24, within the high
  threshold of 72).
\<close>

theorem two_day_course:
  assumes "days (dt_sub (with_utc (sel_deadline s)) (utc_now (clk 0))) = 2"
  shows "\<exists>r. recommend_courses default_settings tp clk (sample_user_data [s] [] []) = Inr [r]
     \<and> rtype r = COURSE_URGENT
     \<and> urgency r = 85 \<and> importance r = 85 \<and> personal_fit r = 90 \<and> growth_value r = 70
     \<and> score r = 8475 / 100 \<and> item_urgency_level r = Some HIGH"
proof -
  let ?r = "course_urgent_item default_settings tp 0 (clk 0) s"
  have v: "RecommendationItem ?r = Inr ?r"
    by (rule course_urgent_item_valid[OF default_nonneg])
  have run: "recommend_courses default_settings tp clk (sample_user_data [s] [] []) = Inr [?r]"
    using assms v by (simp add: recommend_courses_def sample_fields)
  have u: "urgency ?r = 85"
    using assms by (simp add: course_urgent_item_def Let_def calculate_urgency_score_def)
  have sc: "score ?r = 8475 / 100"
    using assms by (simp add: course_urgent_item_def Let_def calculate_urgency_score_def total_default)
  have lv: "item_urgency_level ?r = Some HIGH"
    using assms by (simp add: course_urgent_item_def Let_def get_urgency_level_def default_settings_def)
  have others: "rtype ?r = COURSE_URGENT" "importance ?r = 85" "personal_fit ?r = 90" "growth_value ?r = 70"
    by (simp_all add: course_urgent_item_def Let_def)
  from run u sc lv others show ?thesis by blast
qed

theorem two_day_course_witness:
  "days (dt_sub (with_utc (sel_deadline (sample_selection 1 5 (hours_after 48))))
      (utc_now (fixed_clock 0 0))) = 2
   \<and> (\<exists>r. recommend_courses default_settings plain_templates (fixed_clock 0)
            (sample_user_data [sample_selection 1 5 (hours_after 48)] [] []) = Inr [r]
        \<and> score r = 8475 / 100 \<and> item_urgency_level r = Some HIGH)"
proof -
  have d: "days (dt_sub (with_utc (sel_deadline (sample_selection 1 5 (hours_after 48))))
      (utc_now (fixed_clock 0 0))) = 2"
    by (simp add: sample_fields days_hours_after)
  from two_day_course[where s = "sample_selection 1 5 (hours_after 48)"
      and clk = "fixed_clock 0" and tp = plain_templates] d
  show ?thesis by blast
qed

text \<open>
  Claim C5. The urgency sub-score is piecewise in the whole days remaining: for
  courses 95 up to 1 day, 85 up to 3, 70 up to 7, 50 up to 14 and 30 beyond; for
  projects 90 up to 3 days, 75 up to 7, 60 up to 14 and 40 beyond; every other
  task type gets the fixed baseline 25.
\<close>

theorem urgency_score_piecewise:
  "(d \<le> 1 \<longrightarrow> calculate_urgency_score d ''COURSE'' = 95) \<and>
   (1 < d \<and> d \<le> 3 \<longrightarrow> calculate_urgency_score d ''COURSE'' = 85) \<and>
   (3 < d \<and> d \<le> 7 \<longrightarrow> calculate_urgency_score d ''COURSE'' = 70) \<and>
   (7 < d \<and> d \<le> 14 \<longrightarrow> calculate_urgency_score d ''COURSE'' = 50) \<and>
   (14 < d \<longrightarrow> calculate_urgency_score d ''COURSE'' = 30) \<and>
   (d \<le> 3 \<longrightarrow> calculate_urgency_score d ''PROJECT'' = 90) \<and>
   (3 < d \<and> d \<le> 7 \<longrightarrow> calculate_urgency_score d ''PROJECT'' = 75) \<and>
   (7 < d \<and> d \<le> 14 \<longrightarrow> calculate_urgency_score d ''PROJECT'' = 60) \<and>
   (14 < d \<longrightarrow> calculate_urgency_score d ''PROJECT'' = 40) \<and>
   (t \<noteq> ''COURSE'' \<and> t \<noteq> ''PROJECT'' \<longrightarrow> calculate_urgency_score d t = 25)"
  by (simp add: calculate_urgency_score_def)

theorem urgency_score_piecewise_witness:
  "calculate_urgency_score 1 ''COURSE'' = 95 \<and> calculate_urgency_score 2 ''COURSE'' = 85
   \<and> calculate_urgency_score 7 ''COURSE'' = 70 \<and> calculate_urgency_score 14 ''COURSE'' = 50
   \<and> calculate_urgency_score 15 ''COURSE'' = 30
   \<and> calculate_urgency_score 3 ''PROJECT'' = 90 \<and> calculate_urgency_score 4 ''PROJECT'' = 75
   \<and> calculate_urgency_score 8 ''PROJECT'' = 60 \<and> calculate_urgency_score 30 ''PROJECT'' = 40
   \<and> calculate_urgency_score 1 ''GOAL'' = 25"
  using urgency_score_piecewise[of 1 "''GOAL''"] urgency_score_piecewise[of 2 "''GOAL''"]
    urgency_score_piecewise[of 7 "''GOAL''"] urgency_score_piecewise[of 14 "''GOAL''"]
    urgency_score_piecewise[of 15 "''GOAL''"] urgency_score_piecewise[of 3 "''GOAL''"]
    urgency_score_piecewise[of 4 "''GOAL''"] urgency_score_piecewise[of 8 "''GOAL''"]
    urgency_score_piecewise[of 30 "''GOAL''"]
  by simp

lemma within_three_days:
  "td \<le> 3 * micros_per_day \<Longrightarrow> days td \<le> 3"
  unfolding days_def micros_per_day_def by simp

lemma urgent_item_type: "rtype (course_urgent_item st tp i now s) = COURSE_URGENT"
  by (simp add: course_urgent_item_def Let_def)

lemma popular_item_fields:
  "rtype (course_popular_item st tp i c) = COURSE_POPULAR"
  "score (course_popular_item st tp i c) = course_popular_score st c"
  "item_id (course_popular_item st tp i c) = ''course_popular_'' @ str_json (c_id c)"
  by (simp_all add: course_popular_item_def)

lemma recommend_courses_split:
  "recommend_courses st tp clk ud = Inr recs \<Longrightarrow>
   \<exists>urgent popular. urgent_loop st tp clk 0 (selections ud) = Inr urgent
     \<and> popular_loop st tp (course_id ` set (selections ud)) 0 (all_courses ud) = Inr popular
     \<and> recs = urgent @ popular"
  by (auto simp: recommend_courses_def split: sum.splits)

lemma negative_fit_total:
  "calculate_total_score negative_fit_settings u i f g = min (f * (- 9) + g * 10) 100"
  by (simp add: calculate_total_score_def negative_fit_settings_def default_settings_def Let_def)

text \<open>
  Claim C6, as stated: a course-urgent candidate is emitted for every selection
  due within 3 days, whatever its total score. With the weights 0, 0, -9, 10
  the total of a selection due in 48 hours is 90 * (-9) + 70 * 10 = -110, the
  constructor of the item rejects it, and the generator raises instead of
  emitting; and with one catalogue entry that lacks its \<open>id\<close> the generator
  raises a key error, so that the selection due in 48 hours gets no candidate
  either.
\<close>

theorem course_generator_raises_counterexample:
  "dt_sub (with_utc (sel_deadline (sample_selection 1 101 (hours_after 48))))
      (utc_now (fixed_clock 0 0)) \<le> 3 * micros_per_day
   \<and> weights_sum negative_fit_settings = 1
   \<and> recommend_courses negative_fit_settings plain_templates (fixed_clock 0)
        (sample_user_data [sample_selection 1 101 (hours_after 48)] [] []) = Inl ValidationError
   \<and> recommend_courses default_settings plain_templates (fixed_clock 0)
        (sample_user_data [sample_selection 1 101 (hours_after 48)] [keyless_course] [])
      = Inl KeyError"
proof (intro conjI)
  show "dt_sub (with_utc (sel_deadline (sample_selection 1 101 (hours_after 48))))
      (utc_now (fixed_clock 0 0)) \<le> 3 * micros_per_day"
    by (simp add: sample_fields delta_hours_after micros_per_day_def)
  show "weights_sum negative_fit_settings = 1"
    by (simp add: weights_sum_def negative_fit_settings_def default_settings_def)
  show "recommend_courses negative_fit_settings plain_templates (fixed_clock 0)
        (sample_user_data [sample_selection 1 101 (hours_after 48)] [] []) = Inl ValidationError"
    by (simp add: recommend_courses_def sample_fields days_hours_after RecommendationItem_def
          course_urgent_item_def Let_def negative_fit_total in_score_range_def)
  show "recommend_courses default_settings plain_templates (fixed_clock 0)
        (sample_user_data [sample_selection 1 101 (hours_after 48)] [keyless_course] [])
      = Inl KeyError"
    by (simp add: recommend_courses_def sample_fields days_hours_after
          course_urgent_item_valid[OF default_nonneg] keyless_course_def)
qed

text \<open>
  Claim C6, amended. The course generator returns normally when the weights
  are non-negative and every catalogue entry has its \<open>id\<close> and \<open>title\<close> and no
  null \<open>finish_selections_num\<close> or \<open>desc\<close>. Whenever it returns, it has emitted the
  course-urgent candidate of every selection whose deadline is at most 3 days
  away, with no threshold on the score; and every course-popular candidate it
  has emitted belongs to a catalogue course that the user has not selected,
  with at least 5 completions, and has a total score of at least 60.
\<close>

theorem course_generator_emission:
  "(nonneg_weights st \<and> (\<forall>c \<in> set (all_courses ud). well_formed_course c)
      \<longrightarrow> (\<exists>recs. recommend_courses st tp clk ud = Inr recs)) \<and>
   (\<forall>recs. recommend_courses st tp clk ud = Inr recs \<longrightarrow>
      (\<forall>j < length (selections ud).
          dt_sub (with_utc (sel_deadline (selections ud ! j))) (utc_now (clk j)) \<le> 3 * micros_per_day
          \<longrightarrow> course_urgent_item st tp j (clk j) (selections ud ! j) \<in> set recs
              \<and> rtype (course_urgent_item st tp j (clk j) (selections ud ! j)) = COURSE_URGENT) \<and>
      (\<forall>r \<in> set recs. rtype r = COURSE_POPULAR \<longrightarrow>
          60 \<le> score r \<and>
          (\<exists>c \<in> set (all_courses ud). c_id c \<noteq> Absent
              \<and> \<not> id_selected (c_id c) (course_id ` set (selections ud)) \<and> 5 \<le> finish_num c
              \<and> item_id r = ''course_popular_'' @ str_json (c_id c)
              \<and> score r = course_popular_score st c)))"
proof (intro conjI impI allI)
  assume a: "nonneg_weights st \<and> (\<forall>c \<in> set (all_courses ud). well_formed_course c)"
  then obtain urgent where u: "urgent_loop st tp clk 0 (selections ud) = Inr urgent"
    using urgent_loop_total[of st tp clk 0 "selections ud"] by blast
  from a obtain popular where
    p: "popular_loop st tp (course_id ` set (selections ud)) 0 (all_courses ud) = Inr popular"
    using popular_loop_total[of st "all_courses ud" tp "course_id ` set (selections ud)" 0] by blast
  from u p show "\<exists>recs. recommend_courses st tp clk ud = Inr recs"
    by (simp add: recommend_courses_def)
next
  fix recs j
  assume run: "recommend_courses st tp clk ud = Inr recs"
    and j: "j < length (selections ud)"
    and near: "dt_sub (with_utc (sel_deadline (selections ud ! j))) (utc_now (clk j)) \<le> 3 * micros_per_day"
  from recommend_courses_split[OF run] obtain urgent popular where
    u: "urgent_loop st tp clk 0 (selections ud) = Inr urgent" and recs: "recs = urgent @ popular"
    by blast
  from urgent_loop_mem[OF u j] within_three_days[OF near]
  have "course_urgent_item st tp j (clk j) (selections ud ! j) \<in> set urgent" by simp
  with recs show "course_urgent_item st tp j (clk j) (selections ud ! j) \<in> set recs" by simp
next
  fix recs j
  show "rtype (course_urgent_item st tp j (clk j) (selections ud ! j)) = COURSE_URGENT"
    by (rule urgent_item_type)
next
  fix recs
  assume run: "recommend_courses st tp clk ud = Inr recs"
  from recommend_courses_split[OF run] obtain urgent popular where
    u: "urgent_loop st tp clk 0 (selections ud) = Inr urgent"
    and p: "popular_loop st tp (course_id ` set (selections ud)) 0 (all_courses ud) = Inr popular"
    and recs: "recs = urgent @ popular"
    by blast
  show "\<forall>r \<in> set recs. rtype r = COURSE_POPULAR \<longrightarrow>
          60 \<le> score r \<and>
          (\<exists>c \<in> set (all_courses ud). c_id c \<noteq> Absent
              \<and> \<not> id_selected (c_id c) (course_id ` set (selections ud)) \<and> 5 \<le> finish_num c
              \<and> item_id r = ''course_popular_'' @ str_json (c_id c)
              \<and> score r = course_popular_score st c)"
  proof (intro ballI impI)
    fix r
    assume r: "r \<in> set recs" and t: "rtype r = COURSE_POPULAR"
    have "r \<notin> set urgent"
    proof
      assume "r \<in> set urgent"
      from urgent_loop_items[OF u this] t show False
        by (auto simp: urgent_item_type)
    qed
    with r recs have "r \<in> set popular" by simp
    from popular_loop_items[OF p this] obtain c k where
      c: "c \<in> set (all_courses ud)" "c_id c \<noteq> Absent"
         "\<not> id_selected (c_id c) (course_id ` set (selections ud))"
         "5 \<le> finish_num c" "60 \<le> course_popular_score st c"
         "r = course_popular_item st tp k c" by blast
    then show "60 \<le> score r \<and>
          (\<exists>c \<in> set (all_courses ud). c_id c \<noteq> Absent
              \<and> \<not> id_selected (c_id c) (course_id ` set (selections ud)) \<and> 5 \<le> finish_num c
              \<and> item_id r = ''course_popular_'' @ str_json (c_id c)
              \<and> score r = course_popular_score st c)"
      by (auto simp: popular_item_fields)
  qed
qed

lemma importance_only_nonneg: "nonneg_weights importance_only_settings"
  by (simp add: nonneg_weights_def importance_only_settings_def default_settings_def)

lemma importance_only_total: "calculate_total_score importance_only_settings u i f g = min i 100"
  by (simp add: calculate_total_score_def importance_only_settings_def default_settings_def Let_def)

lemma sample_courses_run:
  "recommend_courses importance_only_settings plain_templates (fixed_clock 0)
      (sample_user_data [sample_selection 1 101 (hours_after 48)] [sample_course 103 12] [])
   = Inr [course_urgent_item importance_only_settings plain_templates 0 (fixed_clock 0 0)
            (sample_selection 1 101 (hours_after 48)),
          course_popular_item importance_only_settings plain_templates 0 (sample_course 103 12)]"
  by (simp add: recommend_courses_def sample_fields days_hours_after id_selected_def
        course_urgent_item_valid[OF importance_only_nonneg]
        course_popular_item_valid[OF importance_only_nonneg]
        course_popular_score_def importance_only_total)

theorem course_generator_emission_witness:
  "nonneg_weights importance_only_settings
   \<and> all_courses (sample_user_data [sample_selection 1 101 (hours_after 48)] [sample_course 103 12] [])
      = [sample_course 103 12]
   \<and> well_formed_course (sample_course 103 12)
   \<and> recommend_courses importance_only_settings plain_templates (fixed_clock 0)
        (sample_user_data [sample_selection 1 101 (hours_after 48)] [sample_course 103 12] [])
      = Inr [course_urgent_item importance_only_settings plain_templates 0 (fixed_clock 0 0)
               (sample_selection 1 101 (hours_after 48)),
             course_popular_item importance_only_settings plain_templates 0 (sample_course 103 12)]
   \<and> dt_sub (with_utc (sel_deadline (sample_selection 1 101 (hours_after 48))))
        (utc_now (fixed_clock 0 0)) \<le> 3 * micros_per_day
   \<and> rtype (course_popular_item importance_only_settings plain_templates 0 (sample_course 103 12))
        = COURSE_POPULAR
   \<and> 60 \<le> score (course_popular_item importance_only_settings plain_templates 0 (sample_course 103 12))
   \<and> score (course_popular_item importance_only_settings plain_templates 0 (sample_course 103 12)) = 84"
proof -
  let ?st = importance_only_settings
  let ?s = "sample_selection 1 101 (hours_after 48)"
  let ?c = "sample_course 103 12"
  let ?ud = "sample_user_data [?s] [?c] []"
  let ?U = "course_urgent_item ?st plain_templates 0 (fixed_clock 0 0) ?s"
  let ?P = "course_popular_item ?st plain_templates 0 ?c"
  note inst = course_generator_emission[of ?st ?ud plain_templates "fixed_clock 0"]
  have keys: "\<forall>c \<in> set (all_courses ?ud). well_formed_course c"
    by (simp add: sample_fields well_formed_course_def)
  from inst importance_only_nonneg keys
  have ex: "\<exists>recs. recommend_courses ?st plain_templates (fixed_clock 0) ?ud = Inr recs" by blast
  have near: "dt_sub (with_utc (sel_deadline ?s)) (utc_now (fixed_clock 0 0)) \<le> 3 * micros_per_day"
    by (simp add: sample_fields delta_hours_after micros_per_day_def)
  have tP: "rtype ?P = COURSE_POPULAR" by (simp add: popular_item_fields)
  have "?P \<in> set [?U, ?P]" by simp
  with inst sample_courses_run tP have "60 \<le> score ?P" by blast
  moreover have "score ?P = 84"
    by (simp add: popular_item_fields course_popular_score_def importance_only_total sample_fields)
  moreover have "all_courses ?ud = [?c]" "well_formed_course ?c"
    by (simp_all add: sample_fields well_formed_course_def)
  ultimately show ?thesis
    using importance_only_nonneg sample_courses_run near tP by blast
qed

lemma urgent_item_level:
  "item_urgency_level (course_urgent_item st tp i now s)
     = Some (get_urgency_level st (days (dt_sub (with_utc (sel_deadline s)) (utc_now now)) * 24))"
  by (simp add: course_urgent_item_def Let_def)

lemma task_item_level:
  "item_urgency_level (task_claim_item st tp ud i now p)
     = Some (get_urgency_level st (days (dt_sub (with_utc (proj_deadline p)) (utc_now now)) * 24))"
  by (simp add: task_claim_item_def Let_def)

lemma days_one:
  "micros_per_day < td \<Longrightarrow> td < 2 * micros_per_day \<Longrightarrow> days td = 1"
  unfolding days_def micros_per_day_def by simp

text \<open>
  Claim C10. The urgency level of a course-urgent and of a task-claim candidate
  is derived from the whole days to the deadline times 24. Under a critical
  threshold of 24 hours, a selection whose deadline is strictly between 24 and
  48 hours away is emitted with the level critical, and so is every unclaimed
  project with such a deadline that passes the score threshold of 50.
\<close>

theorem hours_left_whole_days:
  assumes "urgency_critical st = 24"
  shows
  "item_urgency_level (course_urgent_item st tp i now s)
     = Some (get_urgency_level st (days (dt_sub (with_utc (sel_deadline s)) (utc_now now)) * 24)) \<and>
   item_urgency_level (task_claim_item st tp ud i now p)
     = Some (get_urgency_level st (days (dt_sub (with_utc (proj_deadline p)) (utc_now now)) * 24)) \<and>
   (\<forall>recs j. recommend_courses st tp clk ud = Inr recs \<and> j < length (selections ud)
        \<and> micros_per_day < dt_sub (with_utc (sel_deadline (selections ud ! j))) (utc_now (clk j))
        \<and> dt_sub (with_utc (sel_deadline (selections ud ! j))) (utc_now (clk j)) < 2 * micros_per_day
      \<longrightarrow> course_urgent_item st tp j (clk j) (selections ud ! j) \<in> set recs
          \<and> item_urgency_level (course_urgent_item st tp j (clk j) (selections ud ! j)) = Some CRITICAL) \<and>
   (\<forall>recs j. recommend_projects st tp clk ud = Inr recs \<and> j < length (projects ud)
        \<and> taker_id (projects ud ! j) = None
        \<and> 50 \<le> task_claim_score st ud (clk j) (projects ud ! j)
        \<and> micros_per_day < dt_sub (with_utc (proj_deadline (projects ud ! j))) (utc_now (clk j))
        \<and> dt_sub (with_utc (proj_deadline (projects ud ! j))) (utc_now (clk j)) < 2 * micros_per_day
      \<longrightarrow> task_claim_item st tp ud j (clk j) (projects ud ! j) \<in> set recs
          \<and> item_urgency_level (task_claim_item st tp ud j (clk j) (projects ud ! j)) = Some CRITICAL)"
proof (intro conjI allI impI)
  show "item_urgency_level (course_urgent_item st tp i now s)
     = Some (get_urgency_level st (days (dt_sub (with_utc (sel_deadline s)) (utc_now now)) * 24))"
    by (rule urgent_item_level)
  show "item_urgency_level (task_claim_item st tp ud i now p)
     = Some (get_urgency_level st (days (dt_sub (with_utc (proj_deadline p)) (utc_now now)) * 24))"
    by (rule task_item_level)
next
  fix recs j
  assume a: "recommend_courses st tp clk ud = Inr recs \<and> j < length (selections ud)
        \<and> micros_per_day < dt_sub (with_utc (sel_deadline (selections ud ! j))) (utc_now (clk j))
        \<and> dt_sub (with_utc (sel_deadline (selections ud ! j))) (utc_now (clk j)) < 2 * micros_per_day"
  then have d: "days (dt_sub (with_utc (sel_deadline (selections ud ! j))) (utc_now (clk j))) = 1"
    by (intro days_one) simp_all
  from a recommend_courses_split[of st tp clk ud recs] obtain urgent popular where
    u: "urgent_loop st tp clk 0 (selections ud) = Inr urgent" and recs: "recs = urgent @ popular"
    by blast
  from urgent_loop_mem[OF u, of j] a d
  have "course_urgent_item st tp j (clk j) (selections ud ! j) \<in> set urgent" by simp
  with recs show "course_urgent_item st tp j (clk j) (selections ud ! j) \<in> set recs" by simp
  show "item_urgency_level (course_urgent_item st tp j (clk j) (selections ud ! j)) = Some CRITICAL"
    using d assms by (simp add: urgent_item_level get_urgency_level_def)
next
  fix recs j
  assume a: "recommend_projects st tp clk ud = Inr recs \<and> j < length (projects ud)
        \<and> taker_id (projects ud ! j) = None
        \<and> 50 \<le> task_claim_score st ud (clk j) (projects ud ! j)
        \<and> micros_per_day < dt_sub (with_utc (proj_deadline (projects ud ! j))) (utc_now (clk j))
        \<and> dt_sub (with_utc (proj_deadline (projects ud ! j))) (utc_now (clk j)) < 2 * micros_per_day"
  then have d: "days (dt_sub (with_utc (proj_deadline (projects ud ! j))) (utc_now (clk j))) = 1"
    by (intro days_one) simp_all
  from a have run: "project_loop st tp ud clk 0 (projects ud) = Inr recs"
    by (simp add: recommend_projects_def)
  from project_loop_mem[OF run, of j] a
  show "task_claim_item st tp ud j (clk j) (projects ud ! j) \<in> set recs" by simp
  show "item_urgency_level (task_claim_item st tp ud j (clk j) (projects ud ! j)) = Some CRITICAL"
    using d assms by (simp add: task_item_level get_urgency_level_def)
qed


lemma default_critical: "urgency_critical default_settings = 24"
  by (simp add: default_settings_def)

lemma sample_task_score:
  "task_claim_score default_settings ud (fixed_clock 0 0) (sample_project 201 (hours_after 36) 15 300) = 85"
  by (simp add: task_claim_score_def Let_def sample_fields days_hours_after
        calculate_urgency_score_def bonus_or_0_def calculate_project_fit_score_def total_default)

lemma sample_task_valid:
  "RecommendationItem (task_claim_item default_settings tp ud 0 (fixed_clock 0 0)
      (sample_project 201 (hours_after 36) 15 300))
   = Inr (task_claim_item default_settings tp ud 0 (fixed_clock 0 0)
      (sample_project 201 (hours_after 36) 15 300))"
  by (simp add: RecommendationItem_def task_claim_item_def Let_def sample_task_score
        sample_fields days_hours_after calculate_urgency_score_def bonus_or_0_def
        calculate_project_fit_score_def in_score_range_def)

lemma sample_projects_run:
  "recommend_projects default_settings plain_templates (fixed_clock 0)
      (sample_user_data [sample_selection 1 101 (hours_after 36)] []
         [sample_project 201 (hours_after 36) 15 300])
   = Inr [task_claim_item default_settings plain_templates
            (sample_user_data [sample_selection 1 101 (hours_after 36)] []
               [sample_project 201 (hours_after 36) 15 300])
            0 (fixed_clock 0 0) (sample_project 201 (hours_after 36) 15 300)]"
  by (simp add: recommend_projects_def sample_fields sample_task_score sample_task_valid)

lemma sample_urgent_run:
  "recommend_courses default_settings plain_templates (fixed_clock 0)
      (sample_user_data [sample_selection 1 101 (hours_after 36)] []
         [sample_project 201 (hours_after 36) 15 300])
   = Inr [course_urgent_item default_settings plain_templates 0 (fixed_clock 0 0)
            (sample_selection 1 101 (hours_after 36))]"
  by (simp add: recommend_courses_def sample_fields days_hours_after
        course_urgent_item_valid[OF default_nonneg])

theorem hours_left_whole_days_witness:
  "urgency_critical default_settings = 24
   \<and> micros_per_day < dt_sub (with_utc (hours_after 36)) (utc_now (fixed_clock 0 0))
   \<and> dt_sub (with_utc (hours_after 36)) (utc_now (fixed_clock 0 0)) < 2 * micros_per_day
   \<and> recommend_courses default_settings plain_templates (fixed_clock 0)
        (sample_user_data [sample_selection 1 101 (hours_after 36)] []
           [sample_project 201 (hours_after 36) 15 300])
      = Inr [course_urgent_item default_settings plain_templates 0 (fixed_clock 0 0)
               (sample_selection 1 101 (hours_after 36))]
   \<and> item_urgency_level (course_urgent_item default_settings plain_templates 0 (fixed_clock 0 0)
          (sample_selection 1 101 (hours_after 36))) = Some CRITICAL
   \<and> 50 \<le> task_claim_score default_settings
          (sample_user_data [sample_selection 1 101 (hours_after 36)] []
             [sample_project 201 (hours_after 36) 15 300])
          (fixed_clock 0 0) (sample_project 201 (hours_after 36) 15 300)
   \<and> item_urgency_level (task_claim_item default_settings plain_templates
          (sample_user_data [sample_selection 1 101 (hours_after 36)] []
             [sample_project 201 (hours_after 36) 15 300])
          0 (fixed_clock 0 0) (sample_project 201 (hours_after 36) 15 300)) = Some CRITICAL"
proof -
  let ?s = "sample_selection 1 101 (hours_after 36)"
  let ?p = "sample_project 201 (hours_after 36) 15 300"
  let ?ud = "sample_user_data [?s] [] [?p]"
  note inst = hours_left_whole_days[OF default_critical, where tp = plain_templates
      and ud = ?ud and clk = "fixed_clock 0"]
  have lo: "micros_per_day < dt_sub (with_utc (hours_after 36)) (utc_now (fixed_clock 0 0))"
    and hi: "dt_sub (with_utc (hours_after 36)) (utc_now (fixed_clock 0 0)) < 2 * micros_per_day"
    by (simp_all add: delta_hours_after micros_per_day_def)
  have sc: "50 \<le> task_claim_score default_settings ?ud (fixed_clock 0 0) ?p"
    by (simp add: sample_task_score)
  have cj: "(0::nat) < length (selections ?ud)" "selections ?ud ! 0 = ?s"
    and pj: "(0::nat) < length (projects ?ud)" "projects ?ud ! 0 = ?p"
    by (simp_all add: sample_fields)
  have sd: "sel_deadline ?s = hours_after 36" "proj_deadline ?p = hours_after 36"
    "taker_id ?p = None"
    by (simp_all add: sample_fields)
  from inst have c: "\<forall>recs j. recommend_courses default_settings plain_templates (fixed_clock 0) ?ud = Inr recs
        \<and> j < length (selections ?ud)
        \<and> micros_per_day < dt_sub (with_utc (sel_deadline (selections ?ud ! j))) (utc_now (fixed_clock 0 j))
        \<and> dt_sub (with_utc (sel_deadline (selections ?ud ! j))) (utc_now (fixed_clock 0 j)) < 2 * micros_per_day
      \<longrightarrow> item_urgency_level (course_urgent_item default_settings plain_templates j (fixed_clock 0 j)
             (selections ?ud ! j)) = Some CRITICAL"
    by blast
  from c[rule_format, of _ 0] sample_urgent_run cj sd lo hi
  have l1: "item_urgency_level (course_urgent_item default_settings plain_templates 0 (fixed_clock 0 0) ?s)
      = Some CRITICAL" by simp
  from inst have p: "\<forall>recs j. recommend_projects default_settings plain_templates (fixed_clock 0) ?ud = Inr recs
        \<and> j < length (projects ?ud)
        \<and> taker_id (projects ?ud ! j) = None
        \<and> 50 \<le> task_claim_score default_settings ?ud (fixed_clock 0 j) (projects ?ud ! j)
        \<and> micros_per_day < dt_sub (with_utc (proj_deadline (projects ?ud ! j))) (utc_now (fixed_clock 0 j))
        \<and> dt_sub (with_utc (proj_deadline (projects ?ud ! j))) (utc_now (fixed_clock 0 j)) < 2 * micros_per_day
      \<longrightarrow> item_urgency_level (task_claim_item default_settings plain_templates ?ud j (fixed_clock 0 j)
             (projects ?ud ! j)) = Some CRITICAL"
    by blast
  from p[rule_format, of _ 0] sample_projects_run pj sd lo hi sc
  have l2: "item_urgency_level (task_claim_item default_settings plain_templates ?ud 0 (fixed_clock 0 0) ?p)
      = Some CRITICAL" by simp
  from default_critical lo hi sample_urgent_run l1 sc l2 show ?thesis by blast
qed

section \<open>Properties of the cache service and the sweep\<close>

lemma get_redis_memory:
  "redis cs = Some (InMemoryCache c) \<Longrightarrow> get_redis lib cs = (InMemoryCache c, cs)"
  by (simp add: get_redis_def)

lemma get_redis_offline:
  "connect lib = Inl e \<Longrightarrow> redis cs = None \<Longrightarrow>
   get_redis lib cs = (InMemoryCache [],
      add_log [Log_redis_connect_failed, Log_memory_fallback] (cs \<lparr> redis := Some (InMemoryCache []) \<rparr>))"
  by (simp add: get_redis_def)

lemma signals_add_log:
  "degradation_signals (add_log es cs) = degradation_signals cs + count_list es Log_memory_fallback"
  by (simp add: degradation_signals_def add_log_def)

lemma signals_redis_update [simp]:
  "degradation_signals (cs \<lparr> redis := b \<rparr>) = degradation_signals cs"
  by (simp add: degradation_signals_def)

lemma in_memory_update [simp]:
  "in_memory (cs \<lparr> redis := Some (InMemoryCache c) \<rparr>)"
  by (simp add: in_memory_def)

lemma in_memory_add_log [simp]: "in_memory (add_log es cs) = in_memory cs"
  by (simp add: in_memory_def add_log_def)

lemma memory_ops:
  "backend_get lib (InMemoryCache c) k = (Inr (map_of c k), InMemoryCache c)"
  "backend_set lib (InMemoryCache c) k v = (Inr (), InMemoryCache (AList.update k v c))"
  "backend_setex lib (InMemoryCache c) k t v = (Inr (), InMemoryCache (AList.update k v c))"
  "backend_exists lib (InMemoryCache c) k = (Inr (if k \<in> fst ` set c then 1 else 0), InMemoryCache c)"
  "backend_keys lib (InMemoryCache c) p = (Inr (map fst c), InMemoryCache c)"
  by (simp_all add: backend_get_def backend_set_def backend_setex_def backend_exists_def backend_keys_def)

lemma memory_delete:
  "\<exists>res c2. backend_delete lib (InMemoryCache c) ks = (res, InMemoryCache c2)"
  by (simp add: backend_delete_def split: list.splits)

lemma call_with_memory:
  assumes "get_redis lib cs = (InMemoryCache c, cs1)" "in_memory cs1" "call \<noteq> Sweep"
  shows "in_memory (run_call lib cs call) \<and> degradation_signals (run_call lib cs call) = degradation_signals cs1"
proof (cases call)
  case (Get k)
  then show ?thesis using assms
    by (auto simp: cache_get_def memory_ops signals_add_log split: option.splits sum.splits)
next
  case (Set k v ttl)
  then show ?thesis using assms
    by (auto simp: cache_set_def memory_ops signals_add_log split: option.splits sum.splits)
next
  case (Delete k)
  obtain res c2 where d: "backend_delete lib (InMemoryCache c) [make_key cs1 k] = (res, InMemoryCache c2)"
    using memory_delete by blast
  with Delete assms show ?thesis
    by (auto simp: cache_delete_def signals_add_log split: sum.splits)
next
  case (Exists k)
  then show ?thesis using assms
    by (auto simp: cache_exists_def memory_ops signals_add_log split: option.splits sum.splits)
next
  case (Clear_pattern p)
  obtain res c2 where d: "backend_delete lib (InMemoryCache c) (map fst c) = (res, InMemoryCache c2)"
    using memory_delete by blast
  with Clear_pattern assms show ?thesis
    by (auto simp: clear_pattern_def memory_ops signals_add_log split: sum.splits)
next
  case Sweep
  with assms(3) show ?thesis by simp
qed

lemma sweep_as_clear:
  "cleanup_expired_cache lib cs =
     add_log [Log_cleanup_done (fst (clear_pattern lib (add_log [Log_cleanup_start] cs) ''recommendations:*''))]
       (run_call lib (add_log [Log_cleanup_start] cs) (Clear_pattern ''recommendations:*''))"
  by (simp add: cleanup_expired_cache_def split: prod.splits)

lemma redis_add_log [simp]: "redis (add_log es cs) = redis cs"
  by (simp add: add_log_def)

lemma run_call_memory_plain:
  assumes "in_memory cs" "call \<noteq> Sweep"
  shows "in_memory (run_call lib cs call) \<and> degradation_signals (run_call lib cs call) = degradation_signals cs"
proof -
  from assms obtain c where c: "redis cs = Some (InMemoryCache c)" by (auto simp: in_memory_def)
  from call_with_memory[OF get_redis_memory[OF c] assms] show ?thesis .
qed

lemma run_call_first_plain:
  assumes "connect lib = Inl e" "redis cs = None" "call \<noteq> Sweep"
  shows "in_memory (run_call lib cs call) \<and> degradation_signals (run_call lib cs call) = degradation_signals cs + 1"
proof -
  let ?cs1 = "add_log [Log_redis_connect_failed, Log_memory_fallback] (cs \<lparr> redis := Some (InMemoryCache []) \<rparr>)"
  have m: "in_memory ?cs1" by simp
  have s: "degradation_signals ?cs1 = degradation_signals cs + 1"
    by (simp add: signals_add_log)
  from call_with_memory[OF get_redis_offline[OF assms(1,2)] m assms(3)] s show ?thesis by simp
qed

lemma run_call_memory:
  assumes "in_memory cs"
  shows "in_memory (run_call lib cs call) \<and> degradation_signals (run_call lib cs call) = degradation_signals cs"
proof (cases "call = Sweep")
  case False
  with assms show ?thesis by (rule run_call_memory_plain)
next
  case True
  have "in_memory (add_log [Log_cleanup_start] cs)" using assms by simp
  from run_call_memory_plain[OF this, of "Clear_pattern ''recommendations:*''" lib] True
  show ?thesis by (simp add: sweep_as_clear signals_add_log)
qed

lemma run_call_first:
  assumes "connect lib = Inl e" "redis cs = None"
  shows "in_memory (run_call lib cs call) \<and> degradation_signals (run_call lib cs call) = degradation_signals cs + 1"
proof (cases "call = Sweep")
  case False
  with assms show ?thesis by (rule run_call_first_plain)
next
  case True
  have "redis (add_log [Log_cleanup_start] cs) = None" using assms(2) by simp
  from run_call_first_plain[OF assms(1) this, of "Clear_pattern ''recommendations:*''"] True
  show ?thesis by (simp add: sweep_as_clear signals_add_log)
qed

lemma run_calls_snoc: "run_calls lib cs (calls @ [c]) = run_call lib (run_calls lib cs calls) c"
  by (simp add: run_calls_def)

lemma fresh_service:
  "redis (CacheService st) = None" "degradation_signals (CacheService st) = 0"
  by (simp_all add: CacheService_def degradation_signals_def)

lemma run_calls_offline:
  assumes "connect lib = Inl e" "calls \<noteq> []"
  shows "in_memory (run_calls lib (CacheService st) calls)
     \<and> degradation_signals (run_calls lib (CacheService st) calls) = 1"
  using assms(2)
proof (induction calls rule: rev_induct)
  case Nil
  then show ?case by simp
next
  case (snoc c calls)
  show ?case
  proof (cases "calls = []")
    case True
    then show ?thesis
      using run_call_first[OF assms(1) fresh_service(1)[of st], where call = c]
      by (simp add: run_calls_def fresh_service)
  next
    case False
    with snoc.IH have "in_memory (run_calls lib (CacheService st) calls)"
      "degradation_signals (run_calls lib (CacheService st) calls) = 1" by simp_all
    with run_call_memory[of "run_calls lib (CacheService st) calls" lib c]
    show ?thesis by (simp add: run_calls_snoc)
  qed
qed



lemma set_with_memory:
  assumes "get_redis lib cs = (InMemoryCache c, cs1)" "prefix cs1 = prefix cs" "dumps lib v = Inr d"
  shows "cache_set lib cs k v ttl =
     (True, add_log [Log_set_ok] (cs1 \<lparr> redis := Some (InMemoryCache (AList.update (make_key cs k) d c)) \<rparr>))"
  using assms
  by (simp add: cache_set_def memory_ops make_key_def split: option.splits)

lemma set_offline:
  assumes "connect lib = Inl e" "redis cs = None \<or> in_memory cs" "dumps lib v = Inr d"
  shows "fst (cache_set lib cs k v ttl) \<and> in_memory (snd (cache_set lib cs k v ttl))
     \<and> prefix (snd (cache_set lib cs k v ttl)) = prefix cs
     \<and> memory_of (snd (cache_set lib cs k v ttl)) = AList.update (make_key cs k) d (memory_of cs)"
proof (cases "redis cs = None")
  case True
  have p: "prefix (add_log [Log_redis_connect_failed, Log_memory_fallback]
      (cs \<lparr> redis := Some (InMemoryCache []) \<rparr>)) = prefix cs"
    by (simp add: add_log_def)
  from set_with_memory[OF get_redis_offline[OF assms(1) True] p assms(3)] True
  show ?thesis by (simp add: memory_of_def add_log_def in_memory_def)
next
  case False
  with assms(2) obtain c where c: "redis cs = Some (InMemoryCache c)" by (auto simp: in_memory_def)
  from set_with_memory[OF get_redis_memory[OF c] refl assms(3)] c
  show ?thesis by (simp add: memory_of_def add_log_def in_memory_def)
qed

lemma get_memory:
  assumes "in_memory cs" "map_of (memory_of cs) (make_key cs k) = Some d" "d \<noteq> []"
    "loads lib d = Inr w"
  shows "fst (cache_get lib cs k) = Some w"
proof -
  from assms(1) obtain c where c: "redis cs = Some (InMemoryCache c)" by (auto simp: in_memory_def)
  with assms(2) have "map_of c (make_key cs k) = Some d" by (simp add: memory_of_def)
  with assms(3,4) show ?thesis
    by (simp add: cache_get_def get_redis_memory[OF c] memory_ops)
qed

text \<open>
  The fallback is entered by a failure of \<open>redis.from_url\<close> only. When that call
  returns a client and a later command of the client fails, \<open>set\<close> returns false.
\<close>

lemma unreachable_fields:
  "connect unreachable_libs = Inr ()"
  "dumps unreachable_libs v = Inr v"
  "r_get unreachable_libs r k = (Inl ConnectionError, r)"
  "r_set unreachable_libs r k d = (Inl ConnectionError, r)"
  "r_setex unreachable_libs r k t d = (Inl ConnectionError, r)"
  by (simp_all add: unreachable_libs_def offline_libs_def)

lemma unreachable_run:
  "run_calls unreachable_libs (CacheService default_settings)
      [Set ''test_key'' ''hello'' (Some 60), Get ''test_key'']
   = \<lparr> redis = Some (Redis_client ()), prefix = ''what_to_do'',
       logged = [Log_redis_connected, Log_set_failed, Log_get_failed] \<rparr>"
  by (simp add: run_calls_def CacheService_def cache_set_def cache_get_def get_redis_def
        unreachable_fields backend_setex_def backend_get_def add_log_def default_settings_def)

text \<open>
  Claim C7 says that with the cache backend unreachable \<open>set\<close> and \<open>get\<close> succeed
  against the in-process fallback and one degradation signal is recorded per
  connection attempt. With a client library whose \<open>from_url\<close> returns a client
  without connecting, the failure appears in the first command: \<open>set\<close> returns
  false, \<open>get\<close> returns nothing, the fallback is not installed, no degradation
  warning is logged, and each call logs its own error.
\<close>

theorem unreachable_backend_no_fallback:
  "\<not> fst (cache_set unreachable_libs (CacheService default_settings) ''test_key'' ''hello'' (Some 60))
   \<and> fst (cache_get unreachable_libs
          (snd (cache_set unreachable_libs (CacheService default_settings) ''test_key'' ''hello'' (Some 60)))
          ''test_key'') = None
   \<and> \<not> in_memory (run_calls unreachable_libs (CacheService default_settings)
          [Set ''test_key'' ''hello'' (Some 60), Get ''test_key''])
   \<and> degradation_signals (run_calls unreachable_libs (CacheService default_settings)
          [Set ''test_key'' ''hello'' (Some 60), Get ''test_key'']) = 0
   \<and> logged (run_calls unreachable_libs (CacheService default_settings)
          [Set ''test_key'' ''hello'' (Some 60), Get ''test_key''])
       = [Log_redis_connected, Log_set_failed, Log_get_failed]"
proof (intro conjI)
  show "\<not> fst (cache_set unreachable_libs (CacheService default_settings) ''test_key'' ''hello'' (Some 60))"
    by (simp add: CacheService_def cache_set_def get_redis_def unreachable_fields
          backend_setex_def add_log_def)
  show "fst (cache_get unreachable_libs
          (snd (cache_set unreachable_libs (CacheService default_settings) ''test_key'' ''hello'' (Some 60)))
          ''test_key'') = None"
    by (simp add: CacheService_def cache_set_def cache_get_def get_redis_def unreachable_fields
          backend_setex_def backend_get_def add_log_def)
  show "\<not> in_memory (run_calls unreachable_libs (CacheService default_settings)
          [Set ''test_key'' ''hello'' (Some 60), Get ''test_key''])"
    by (simp add: unreachable_run in_memory_def)
  show "degradation_signals (run_calls unreachable_libs (CacheService default_settings)
          [Set ''test_key'' ''hello'' (Some 60), Get ''test_key'']) = 0"
    by (simp add: unreachable_run degradation_signals_def)
  show "logged (run_calls unreachable_libs (CacheService default_settings)
          [Set ''test_key'' ''hello'' (Some 60), Get ''test_key''])
       = [Log_redis_connected, Log_set_failed, Log_get_failed]"
    by (simp add: unreachable_run)
qed

lemma set_fails_on_connected_client:
  assumes "connect lib = Inr r" "dumps lib v = Inr d" "r_set lib r (make_key (CacheService st) k) d = (Inl e, r2)"
  shows "\<not> fst (cache_set lib (CacheService st) k v None)"
  using assms
  by (simp add: cache_set_def get_redis_def CacheService_def add_log_def backend_set_def make_key_def)

text \<open>
  The path on which the fallback works. When \<open>redis.from_url\<close> itself raises,
  then after any sequence of calls of the service the degradation warning of
  the in-process fallback has been logged exactly once (by the first call,
  which makes the one connection attempt, and by no later call); a \<open>set\<close> whose
  value serialises returns true and stores the value in the fallback dict
  whatever its ttl; and a \<open>get\<close> of that key then returns the value.
\<close>

theorem cache_fallback:
  assumes "connect lib = Inl e"
  shows "(calls \<noteq> [] \<longrightarrow> degradation_signals (run_calls lib (CacheService st) calls) = 1) \<and>
   (dumps lib v = Inr d \<longrightarrow>
      fst (cache_set lib (run_calls lib (CacheService st) calls) k v ttl) \<and>
      degradation_signals (snd (cache_set lib (run_calls lib (CacheService st) calls) k v ttl)) = 1 \<and>
      memory_of (snd (cache_set lib (run_calls lib (CacheService st) calls) k v ttl))
        = AList.update (make_key (run_calls lib (CacheService st) calls) k) d
            (memory_of (run_calls lib (CacheService st) calls)) \<and>
      (d \<noteq> [] \<and> loads lib d = Inr w \<longrightarrow>
         fst (cache_get lib (snd (cache_set lib (run_calls lib (CacheService st) calls) k v ttl)) k) = Some w \<and>
         degradation_signals
           (snd (cache_get lib (snd (cache_set lib (run_calls lib (CacheService st) calls) k v ttl)) k)) = 1))"
proof (intro conjI impI)
  let ?cs = "run_calls lib (CacheService st) calls"
  let ?set = "cache_set lib ?cs k v ttl"
  show "degradation_signals ?cs = 1" if "calls \<noteq> []"
    using run_calls_offline[OF assms that] by blast
  have st: "redis ?cs = None \<or> in_memory ?cs"
  proof (cases "calls = []")
    case True
    then show ?thesis by (simp add: run_calls_def fresh_service)
  next
    case False
    from run_calls_offline[OF assms False] show ?thesis by blast
  qed
  have after_set: "snd ?set = run_calls lib (CacheService st) (calls @ [Set k v ttl])"
    by (simp add: run_calls_snoc)
  have after_get: "snd (cache_get lib (snd ?set) k) = run_calls lib (CacheService st) (calls @ [Set k v ttl, Get k])"
    by (simp add: run_calls_def)
  show "degradation_signals (snd ?set) = 1"
    unfolding after_set using run_calls_offline[OF assms, of "calls @ [Set k v ttl]" st] by simp
  show "degradation_signals (snd (cache_get lib (snd ?set) k)) = 1"
    unfolding after_get using run_calls_offline[OF assms, of "calls @ [Set k v ttl, Get k]" st] by simp
  {
    assume d: "dumps lib v = Inr d"
    from set_offline[OF assms st d, of k ttl]
    show "fst ?set" and m: "memory_of (snd ?set) = AList.update (make_key ?cs k) d (memory_of ?cs)"
      by simp_all
    assume l: "d \<noteq> [] \<and> loads lib d = Inr w"
    from set_offline[OF assms st d, of k ttl]
    have im: "in_memory (snd ?set)" and pf: "prefix (snd ?set) = prefix ?cs" by simp_all
    have mk: "map_of (memory_of (snd ?set)) (make_key (snd ?set) k) = Some d"
      using pf by (simp add: m make_key_def update_conv')
    from l have "d \<noteq> []" "loads lib d = Inr w" by simp_all
    with im mk show "fst (cache_get lib (snd ?set) k) = Some w" by (rule get_memory)
  }
qed


lemma offline_connect: "connect offline_libs = Inl ConnectionError"
  by (simp add: offline_libs_def)

lemma offline_json: "dumps offline_libs v = Inr v" "loads offline_libs d = Inr d"
  by (simp_all add: offline_libs_def)

theorem cache_fallback_witness:
  "connect offline_libs = Inl ConnectionError
   \<and> [Set ''a'' ''1'' None, Get ''a''] \<noteq> []
   \<and> degradation_signals (run_calls offline_libs (CacheService default_settings)
         [Set ''a'' ''1'' None, Get ''a'']) = 1
   \<and> dumps offline_libs ''hello'' = Inr ''hello''
   \<and> ''hello'' \<noteq> [] \<and> loads offline_libs ''hello'' = Inr ''hello''
   \<and> fst (cache_set offline_libs (run_calls offline_libs (CacheService default_settings)
         [Set ''a'' ''1'' None, Get ''a'']) ''test_key'' ''hello'' (Some 60))
   \<and> fst (cache_get offline_libs (snd (cache_set offline_libs
         (run_calls offline_libs (CacheService default_settings) [Set ''a'' ''1'' None, Get ''a''])
         ''test_key'' ''hello'' (Some 60))) ''test_key'') = Some ''hello''"
proof -
  note inst = cache_fallback[OF offline_connect, where calls = "[Set ''a'' ''1'' None, Get ''a'']"
      and st = default_settings and v = "''hello''" and d = "''hello''" and w = "''hello''"
      and k = "''test_key''" and ttl = "Some 60"]
  have ne: "[Set ''a'' ''1'' None, Get ''a''] \<noteq> ([] :: string cache_call list)" by simp
  have h: "''hello'' \<noteq> []" by simp
  from inst ne h offline_connect offline_json[of "''hello''"] show ?thesis by blast
qed

text \<open>
  Claim C8 says that the sweep removes only stale entries under the
  recommendation key pattern. On the in-process fallback (installed when
  \<open>redis.from_url\<close> raises), a sweep that finds a
  single entry deletes it, whether its key is outside the pattern or it is a
  recommendation entry written just before; with two or more entries the
  \<open>delete(*keys)\<close> call fails and nothing is removed.
\<close>

theorem sweep_removes_fresh_and_foreign_entries:
  "memory_of (run_calls offline_libs (CacheService default_settings) [Set ''other_key'' ''v'' None])
     = [(''what_to_do:other_key'', ''v'')]
   \<and> memory_of (run_calls offline_libs (CacheService default_settings)
        [Set ''other_key'' ''v'' None, Sweep]) = []
   \<and> memory_of (run_calls offline_libs (CacheService default_settings)
        [Set ''recommendations:user:1'' ''v'' (Some 7200)])
     = [(''what_to_do:recommendations:user:1'', ''v'')]
   \<and> memory_of (run_calls offline_libs (CacheService default_settings)
        [Set ''recommendations:user:1'' ''v'' (Some 7200), Sweep]) = []"
  by (simp add: run_calls_def CacheService_def cache_set_def get_redis_def offline_libs_def
        backend_set_def backend_setex_def backend_keys_def backend_delete_def add_log_def
        make_key_def cleanup_expired_cache_def clear_pattern_def memory_of_def default_settings_def
        AList.delete_eq)

lemma sweep_keeps_two_entries:
  "memory_of (run_calls offline_libs (CacheService default_settings)
        [Set ''other_key'' ''v'' None, Set ''recommendations:user:1'' ''w'' (Some 7200), Sweep])
     = [(''what_to_do:other_key'', ''v''), (''what_to_do:recommendations:user:1'', ''w'')]"
  by (simp add: run_calls_def CacheService_def cache_set_def get_redis_def offline_libs_def
        backend_set_def backend_setex_def backend_keys_def backend_delete_def add_log_def
        make_key_def cleanup_expired_cache_def clear_pattern_def memory_of_def default_settings_def
        AList.delete_eq)

section \<open>Properties of the recommendation engine\<close>

lemma select_length: "length (select_top3_with_diversity recs) \<le> 3"
  by (simp add: select_top3_with_diversity_def Let_def)

lemma generate_body_length:
  "generate_body st tp fi ck mock results uid tok = Inr recs \<Longrightarrow> length recs \<le> 3"
  by (auto simp: generate_body_def Let_def select_length split: sum.splits)

text \<open>
  Claim C2. For every user, every outcome of the five upstream calls and every
  other input, \<open>generate_recommendations\<close> returns a list of at most 3
  recommendations and raises nothing; when the body of its \<open>try\<close> block fails,
  the list is empty; and each upstream call that failed is replaced by the
  empty list (by \<open>None\<close> for the goal) in the user data.
\<close>

theorem generate_never_raises:
  "(\<exists>recs. generate_recommendations st tp fi ck mock results uid tok = Inr recs \<and> length recs \<le> 3) \<and>
   (\<forall>e. generate_body st tp fi ck mock results uid tok = Inl e
      \<longrightarrow> generate_recommendations st tp fi ck mock results uid tok = Inr []) \<and>
   (\<not> use_mock_data st \<longrightarrow>
      (\<forall>e. r_selections results = Inl e \<longrightarrow> selections (fetch_user_data st mock results uid tok) = []) \<and>
      (\<forall>e. r_courses results = Inl e \<longrightarrow> all_courses (fetch_user_data st mock results uid tok) = []) \<and>
      (\<forall>e. r_projects results = Inl e \<longrightarrow> projects (fetch_user_data st mock results uid tok) = []) \<and>
      (\<forall>e. r_goal results = Inl e \<longrightarrow> ud_goal (fetch_user_data st mock results uid tok) = None) \<and>
      (\<forall>e. r_reports results = Inl e \<longrightarrow> reports (fetch_user_data st mock results uid tok) = []))"
proof (intro conjI)
  show "\<exists>recs. generate_recommendations st tp fi ck mock results uid tok = Inr recs \<and> length recs \<le> 3"
  proof (cases "generate_body st tp fi ck mock results uid tok")
    case (Inl e)
    then show ?thesis by (simp add: generate_recommendations_def)
  next
    case (Inr recs)
    with generate_body_length[OF Inr] show ?thesis by (simp add: generate_recommendations_def)
  qed
  show "\<forall>e. generate_body st tp fi ck mock results uid tok = Inl e
      \<longrightarrow> generate_recommendations st tp fi ck mock results uid tok = Inr []"
    by (simp add: generate_recommendations_def)
  show "\<not> use_mock_data st \<longrightarrow>
      (\<forall>e. r_selections results = Inl e \<longrightarrow> selections (fetch_user_data st mock results uid tok) = []) \<and>
      (\<forall>e. r_courses results = Inl e \<longrightarrow> all_courses (fetch_user_data st mock results uid tok) = []) \<and>
      (\<forall>e. r_projects results = Inl e \<longrightarrow> projects (fetch_user_data st mock results uid tok) = []) \<and>
      (\<forall>e. r_goal results = Inl e \<longrightarrow> ud_goal (fetch_user_data st mock results uid tok) = None) \<and>
      (\<forall>e. r_reports results = Inl e \<longrightarrow> reports (fetch_user_data st mock results uid tok) = [])"
    by (simp add: fetch_user_data_def)
qed

lemma all_failed_fields:
  "r_selections all_failed = Inl UpstreamError" "r_courses all_failed = Inl UpstreamError"
  "r_projects all_failed = Inl UpstreamError" "r_goal all_failed = Inl UpstreamError"
  "r_reports all_failed = Inl UpstreamError"
  "r_selections (all_failed \<lparr> r_courses := x \<rparr>) = Inl UpstreamError"
  "r_courses (all_failed \<lparr> r_courses := x \<rparr>) = x"
  "r_projects (all_failed \<lparr> r_courses := x \<rparr>) = Inl UpstreamError"
  "r_goal (all_failed \<lparr> r_courses := x \<rparr>) = Inl UpstreamError"
  "r_reports (all_failed \<lparr> r_courses := x \<rparr>) = Inl UpstreamError"
  by (simp_all add: all_failed_def)

lemma default_no_mock: "\<not> use_mock_data default_settings"
  by (simp add: default_settings_def)

lemma fetch_all_failed:
  "fetch_user_data default_settings mock all_failed uid tok =
     \<lparr> selections = [], all_courses = [], projects = [], ud_goal = None, reports = [],
       ud_user_id = uid, token = tok \<rparr>"
  by (simp add: fetch_user_data_def default_no_mock all_failed_fields)

lemma body_all_failed:
  "generate_body default_settings plain_templates no_parser still_clocks mock all_failed 51 [] = Inr []"
  by (simp add: generate_body_def fetch_all_failed recommend_courses_def recommend_projects_def
        recommend_system_actions_def goal_talk_def report_reminder_def
        select_top3_with_diversity_def)

lemma body_keyless_course:
  "generate_body default_settings plain_templates no_parser still_clocks mock
      (all_failed \<lparr> r_courses := Inr [keyless_course] \<rparr>) 51 [] = Inl KeyError"
  by (simp add: generate_body_def fetch_user_data_def default_no_mock all_failed_fields
        recommend_courses_def keyless_course_def)

theorem generate_never_raises_witness:
  "\<not> use_mock_data default_settings
   \<and> r_selections all_failed = Inl UpstreamError \<and> r_courses all_failed = Inl UpstreamError
   \<and> r_projects all_failed = Inl UpstreamError \<and> r_goal all_failed = Inl UpstreamError
   \<and> r_reports all_failed = Inl UpstreamError
   \<and> selections (fetch_user_data default_settings (sample_user_data [] [] []) all_failed 51 []) = []
   \<and> all_courses (fetch_user_data default_settings (sample_user_data [] [] []) all_failed 51 []) = []
   \<and> projects (fetch_user_data default_settings (sample_user_data [] [] []) all_failed 51 []) = []
   \<and> ud_goal (fetch_user_data default_settings (sample_user_data [] [] []) all_failed 51 []) = None
   \<and> reports (fetch_user_data default_settings (sample_user_data [] [] []) all_failed 51 []) = []
   \<and> generate_body default_settings plain_templates no_parser still_clocks (sample_user_data [] [] [])
        (all_failed \<lparr> r_courses := Inr [keyless_course] \<rparr>) 51 [] = Inl KeyError
   \<and> generate_recommendations default_settings plain_templates no_parser still_clocks
        (sample_user_data [] [] []) (all_failed \<lparr> r_courses := Inr [keyless_course] \<rparr>) 51 [] = Inr []"
proof -
  note a = generate_never_raises[where st = default_settings and tp = plain_templates
      and fi = no_parser and ck = still_clocks and mock = "sample_user_data [] [] []"
      and results = all_failed and uid = 51 and tok = "[]"]
  note b = generate_never_raises[where st = default_settings and tp = plain_templates
      and fi = no_parser and ck = still_clocks and mock = "sample_user_data [] [] []"
      and results = "all_failed \<lparr> r_courses := Inr [keyless_course] \<rparr>" and uid = 51 and tok = "[]"]
  from a default_no_mock all_failed_fields(1-5)
  have f: "selections (fetch_user_data default_settings (sample_user_data [] [] []) all_failed 51 []) = []"
    "all_courses (fetch_user_data default_settings (sample_user_data [] [] []) all_failed 51 []) = []"
    "projects (fetch_user_data default_settings (sample_user_data [] [] []) all_failed 51 []) = []"
    "ud_goal (fetch_user_data default_settings (sample_user_data [] [] []) all_failed 51 []) = None"
    "reports (fetch_user_data default_settings (sample_user_data [] [] []) all_failed 51 []) = []"
    by blast+
  from b body_keyless_course[of "sample_user_data [] [] []"]
  have g: "generate_recommendations default_settings plain_templates no_parser still_clocks
        (sample_user_data [] [] []) (all_failed \<lparr> r_courses := Inr [keyless_course] \<rparr>) 51 [] = Inr []"
    by blast
  from f g default_no_mock all_failed_fields(1-5) body_keyless_course[of "sample_user_data [] [] []"]
  show ?thesis by blast
qed

end
